theory Spec2Isabelle
  imports Complex_Main
begin

section \<open>Arrays and the linear algebra the estimator calls\<close>

text \<open>
  The estimator of \<^verbatim>\<open>gmm.py\<close> works on float64 arrays of numpy and torch. An entry of
  the data is modelled as a real number and the arithmetic of the module's own products,
  sums and means as exact: the data is finite, and rounding and overflow are left out.
  Two places where the code produces a NaN from such inputs are written out: the mean
  over an empty leading axis, and the square root of a negative number. The inversion
  routines of the libraries are parameters, so what they return in float64 is not fixed
  by the model. A shape error (ValueError in numpy, RuntimeError in torch) is the one
  error \<open>ShapeMismatch\<close>.

  The dtype of a torch tensor is modelled where the code mixes two of them: \<^verbatim>\<open>fit\<close>
  stages float64 tensors, so the moments and their mean are float64, while
  \<^verbatim>\<open>torch.eye\<close> makes a float32 tensor. \<^verbatim>\<open>torch.matmul\<close> of a matrix and a vector
  of different dtypes raises RuntimeError as soon as the matrix has an entry.
\<close>

datatype error =
  AttributeError | UnboundLocalError | ZeroDivisionError | TypeError
  | ShapeMismatch | LinAlgError | RuntimeError

datatype pyfloat = NaN | Num real

datatype dtype = Float32 | Float64

datatype matrix = Matrix (nrows: nat) (ncols: nat) (entry: "nat \<Rightarrow> nat \<Rightarrow> real")

datatype vec = Vec (vlen: nat) (velem: "nat \<Rightarrow> real")

datatype fvec = FVec (flen: nat) (felem: "nat \<Rightarrow> pyfloat")

datatype tensor3 =
  Tensor3 (dim0: nat) (dim1: nat) (dim2: nat) (tentry: "nat \<Rightarrow> nat \<Rightarrow> nat \<Rightarrow> real")

definition T_mat :: "matrix \<Rightarrow> matrix" where
  \<comment> \<open>\<^verbatim>\<open>A.T\<close>\<close>
  "T_mat A = Matrix (ncols A) (nrows A) (\<lambda>i j. entry A j i)"

definition neg_mat :: "matrix \<Rightarrow> matrix" where
  \<comment> \<open>\<^verbatim>\<open>-A\<close>\<close>
  "neg_mat A = Matrix (nrows A) (ncols A) (\<lambda>i j. - entry A i j)"

definition scalar_mul :: "real \<Rightarrow> matrix \<Rightarrow> matrix" where
  \<comment> \<open>\<^verbatim>\<open>c * A\<close> for a Python float \<open>c\<close>\<close>
  "scalar_mul c A = Matrix (nrows A) (ncols A) (\<lambda>i j. c * entry A i j)"

definition matmul :: "matrix \<Rightarrow> matrix \<Rightarrow> error + matrix" where
  \<comment> \<open>\<^verbatim>\<open>A @ B\<close> for two 2-D arrays, in exact arithmetic: float64 rounds each product
      and each sum, and agrees with this on integers of moderate size\<close>
  "matmul A B =
     (if ncols A \<noteq> nrows B then Inl ShapeMismatch
      else Inr (Matrix (nrows A) (ncols B)
                  (\<lambda>i j. \<Sum>l<ncols A. entry A i l * entry B l j)))"

definition eye :: "nat \<Rightarrow> matrix" where
  \<comment> \<open>\<^verbatim>\<open>np.eye(L)\<close>, \<^verbatim>\<open>torch.eye(L)\<close>\<close>
  "eye L = Matrix L L (\<lambda>i j. if i = j then 1 else 0)"

definition diag :: "matrix \<Rightarrow> vec" where
  \<comment> \<open>\<^verbatim>\<open>np.diag(V)\<close> of a 2-D array\<close>
  "diag V = Vec (min (nrows V) (ncols V)) (\<lambda>i. entry V i i)"

definition mean_axis0 :: "matrix \<Rightarrow> fvec" where
  \<comment> \<open>\<^verbatim>\<open>M.mean(axis=0)\<close> of finite entries, without overflow: with no rows every
      column mean is 0/0, a NaN\<close>
  "mean_axis0 M =
     FVec (ncols M)
       (\<lambda>j. if nrows M = 0 then NaN
            else Num ((\<Sum>i<nrows M. entry M i j) / real (nrows M)))"

definition sum_axis0 :: "tensor3 \<Rightarrow> matrix" where
  \<comment> \<open>\<^verbatim>\<open>J.sum(axis=0)\<close> of a 3-D array\<close>
  "sum_axis0 J = Matrix (dim1 J) (dim2 J) (\<lambda>l j. \<Sum>i<dim0 J. tentry J i l j)"

definition np_sqrt :: "real \<Rightarrow> pyfloat" where
  \<comment> \<open>\<^verbatim>\<open>np.sqrt\<close> on one entry: NaN (and a warning) below zero\<close>
  "np_sqrt a = (if a < 0 then NaN else Num (sqrt a))"

definition sqrt_scaled :: "nat \<Rightarrow> vec \<Rightarrow> fvec" where
  \<comment> \<open>\<^verbatim>\<open>np.sqrt(n * d)\<close> for a Python int \<open>n\<close> and a 1-D array \<open>d\<close>\<close>
  "sqrt_scaled n d = FVec (vlen d) (\<lambda>i. np_sqrt (real n * velem d i))"

subsection \<open>Products with a vector that may hold NaN\<close>

fun fadd :: "pyfloat \<Rightarrow> pyfloat \<Rightarrow> pyfloat" where
  "fadd (Num a) (Num b) = Num (a + b)"
| "fadd _ _ = NaN"

fun fmul :: "pyfloat \<Rightarrow> pyfloat \<Rightarrow> pyfloat" where
  "fmul (Num a) (Num b) = Num (a * b)"
| "fmul _ _ = NaN"

primrec fsum :: "(nat \<Rightarrow> pyfloat) \<Rightarrow> nat \<Rightarrow> pyfloat" where
  "fsum f 0 = Num 0"
| "fsum f (Suc m) = fadd (fsum f m) (f m)"

definition vecmat :: "fvec \<Rightarrow> matrix \<Rightarrow> error + fvec" where
  \<comment> \<open>\<^verbatim>\<open>v @ W\<close> for a 1-D \<open>v\<close> and a 2-D \<open>W\<close>\<close>
  "vecmat v A =
     (if flen v \<noteq> nrows A then Inl ShapeMismatch
      else Inr (FVec (ncols A)
                  (\<lambda>j. fsum (\<lambda>i. fmul (felem v i) (Num (entry A i j))) (nrows A))))"

definition matvec :: "matrix \<Rightarrow> fvec \<Rightarrow> error + fvec" where
  \<comment> \<open>\<^verbatim>\<open>torch.matmul(W, v)\<close> for a 2-D \<open>W\<close> and a 1-D \<open>v\<close>\<close>
  "matvec A v =
     (if ncols A \<noteq> flen v then Inl ShapeMismatch
      else Inr (FVec (nrows A)
                  (\<lambda>i. fsum (\<lambda>j. fmul (Num (entry A i j)) (felem v j)) (ncols A))))"

definition dot :: "fvec \<Rightarrow> fvec \<Rightarrow> error + pyfloat" where
  \<comment> \<open>\<^verbatim>\<open>u @ v\<close> for two 1-D arrays\<close>
  "dot u v =
     (if flen u \<noteq> flen v then Inl ShapeMismatch
      else Inr (fsum (\<lambda>i. fmul (felem u i) (felem v i)) (flen u)))"

subsection \<open>Broadcasting, for the moment conditions\<close>

definition matvec_r :: "matrix \<Rightarrow> vec \<Rightarrow> error + vec" where
  \<comment> \<open>\<^verbatim>\<open>x @ beta\<close>\<close>
  "matvec_r A b =
     (if ncols A \<noteq> vlen b then Inl ShapeMismatch
      else Inr (Vec (nrows A) (\<lambda>i. \<Sum>j<ncols A. entry A i j * velem b j)))"

definition broadcast :: "nat \<Rightarrow> nat \<Rightarrow> error + nat" where
  \<comment> \<open>the common length of two axes: equal, or one of them 1\<close>
  "broadcast a b =
     (if a = b then Inr a else if a = 1 then Inr b else if b = 1 then Inr a
      else Inl ShapeMismatch)"

definition bidx :: "nat \<Rightarrow> nat \<Rightarrow> nat" where
  \<comment> \<open>an axis of length 1 is read at 0 for every index\<close>
  "bidx a i = (if a = 1 then 0 else i)"

definition vsub :: "vec \<Rightarrow> vec \<Rightarrow> error + vec" where
  \<comment> \<open>\<^verbatim>\<open>y - r\<close> for two 1-D arrays\<close>
  "vsub u v =
     (case broadcast (vlen u) (vlen v) of
        Inl e \<Rightarrow> Inl e
      | Inr m \<Rightarrow> Inr (Vec m (\<lambda>i. velem u (bidx (vlen u) i) - velem v (bidx (vlen v) i))))"

definition mul_col :: "matrix \<Rightarrow> vec \<Rightarrow> error + matrix" where
  \<comment> \<open>\<^verbatim>\<open>z * r[:, np.newaxis]\<close>, \<^verbatim>\<open>z * r.unsqueeze(-1)\<close>: the column \<open>r\<close> is
      repeated along the second axis\<close>
  "mul_col A r =
     (case broadcast (nrows A) (vlen r) of
        Inl e \<Rightarrow> Inl e
      | Inr m \<Rightarrow>
          Inr (Matrix m (ncols A)
                 (\<lambda>i j. entry A (bidx (nrows A) i) j * velem r (bidx (vlen r) i))))"

section \<open>The moment conditions of the module\<close>

type_synonym moment_function = "matrix \<Rightarrow> vec \<Rightarrow> matrix \<Rightarrow> vec \<Rightarrow> error + matrix"

definition iv_moment_numpy :: moment_function where
  \<comment> \<open>\<^verbatim>\<open>z * (y - x @ beta)[:, np.newaxis]\<close>\<close>
  "iv_moment_numpy z y x beta =
     (case matvec_r x beta of
        Inl e \<Rightarrow> Inl e
      | Inr xb \<Rightarrow> (case vsub y xb of Inl e \<Rightarrow> Inl e | Inr r \<Rightarrow> mul_col z r))"

definition iv_moment_pytorch :: moment_function where
  \<comment> \<open>\<^verbatim>\<open>z * (y - x @ beta).unsqueeze(-1)\<close>\<close>
  "iv_moment_pytorch z y x beta =
     (case matvec_r x beta of
        Inl e \<Rightarrow> Inl e
      | Inr xb \<Rightarrow> (case vsub y xb of Inl e \<Rightarrow> Inl e | Inr r \<Rightarrow> mul_col z r))"

section \<open>The estimator\<close>

text \<open>
  An attribute of the instance that no code has assigned yet is \<open>None\<close> (or \<open>WUnset\<close>,
  \<open>SEUnset\<close>); reading it raises AttributeError. \<open>self.W\<close> is a torch tensor, of the
  dtype it was made with, while the torch backend minimises, and a numpy array otherwise;
  \<open>WNone\<close> and \<open>SENone\<close> are Python's \<^verbatim>\<open>None\<close>.
\<close>

datatype weight = WUnset | WNone | WNumpy matrix | WTorch dtype matrix

datatype std_err = SEUnset | SENone | SEVal fvec

record estimator =
  moment_cond :: moment_function
  weighting_matrix :: string
  opt :: string
  self_z :: "matrix option"
  self_y :: "vec option"
  self_x :: "matrix option"
  self_n :: "nat option"
  self_k :: "nat option"
  self_W :: weight
  self_theta :: "vec option"
  self_Gamma :: "matrix option"
  self_jac_est :: "matrix option"
  self_vtheta :: "matrix option"
  self_std_errors :: std_err

definition GMMEstimator :: "moment_function \<Rightarrow> string \<Rightarrow> string \<Rightarrow> estimator" where
  \<comment> \<open>\<^verbatim>\<open>__init__\<close>\<close>
  "GMMEstimator mc wm backend =
     \<lparr> moment_cond = mc, weighting_matrix = wm, opt = backend,
       self_z = None, self_y = None, self_x = None, self_n = None, self_k = None,
       self_W = WUnset, self_theta = None, self_Gamma = None, self_jac_est = None,
       self_vtheta = None, self_std_errors = SEUnset \<rparr>"

text \<open>
  A method returns a value or raises; either way the instance keeps what the method
  assigned before.
\<close>

datatype 'a result = Returned 'a estimator | Raised error estimator

datatype pyret = RetNone | RetFloat pyfloat

text \<open>
  The libraries are parameters. A minimiser is a black box that asks for the objective
  at points of its choice and, after finitely many questions, returns a point or raises:
  a well-founded tree. \<^verbatim>\<open>jacfwd\<close> returns the n x L x k array of derivatives of a moment
  function in its fourth argument, or raises.
\<close>

datatype minimizer = Return vec | Fail error | Query vec "pyret \<Rightarrow> minimizer"

record externals =
  np_linalg_inv :: "matrix \<Rightarrow> error + matrix"
  torch_inverse :: "matrix \<Rightarrow> error + matrix"
  scipy_optimize_minimize :: "string \<Rightarrow> bool \<Rightarrow> vec \<Rightarrow> minimizer"
  torchmin_minimize :: "string \<Rightarrow> bool \<Rightarrow> vec \<Rightarrow> minimizer"
  torch_func_jacfwd :: "moment_function \<Rightarrow> matrix \<Rightarrow> vec \<Rightarrow> matrix \<Rightarrow> vec \<Rightarrow> error + tensor3"

definition optimal_weighting_matrix :: "externals \<Rightarrow> estimator \<Rightarrow> matrix \<Rightarrow> error + weight" where
  \<comment> \<open>on torch the product of the float64 moments, and its inverse, are float64\<close>
  "optimal_weighting_matrix E s moments =
     (if opt s = ''scipy'' then
        (case self_n s of
           None \<Rightarrow> Inl AttributeError
         | Some n \<Rightarrow>
             if n = 0 then Inl ZeroDivisionError
             else (case matmul (T_mat moments) moments of
                     Inl e \<Rightarrow> Inl e
                   | Inr G \<Rightarrow>
                       (case np_linalg_inv E (scalar_mul (1 / real n) G) of
                          Inl e \<Rightarrow> Inl e
                        | Inr Wm \<Rightarrow> Inr (WNumpy Wm))))
      else if opt s = ''torch'' then
        (case self_n s of
           None \<Rightarrow> Inl AttributeError
         | Some n \<Rightarrow>
             if n = 0 then Inl ZeroDivisionError
             else (case matmul (T_mat moments) moments of
                     Inl e \<Rightarrow> Inl e
                   | Inr G \<Rightarrow>
                       (case torch_inverse E (scalar_mul (1 / real n) G) of
                          Inl e \<Rightarrow> Inl e
                        | Inr Wm \<Rightarrow> Inr (WTorch Float64 Wm))))
      else Inr WNone)"

definition assign_W :: "externals \<Rightarrow> matrix \<Rightarrow> estimator \<Rightarrow> unit result" where
  \<comment> \<open>lines 30 to 36 of \<^verbatim>\<open>gmm_objective\<close>; \<^verbatim>\<open>torch.eye\<close> is called without a dtype
      and makes a float32 tensor\<close>
  "assign_W E moments s =
     (if weighting_matrix s = ''optimal'' then
        (case optimal_weighting_matrix E s moments of
           Inl e \<Rightarrow> Raised e s
         | Inr w \<Rightarrow> Returned () (s\<lparr>self_W := w\<rparr>))
      else if opt s = ''scipy'' then Returned () (s\<lparr>self_W := WNumpy (eye (ncols moments))\<rparr>)
      else if opt s = ''torch'' then
        Returned () (s\<lparr>self_W := WTorch Float32 (eye (ncols moments))\<rparr>)
      else Returned () s)"

definition weight_array :: "weight \<Rightarrow> error + matrix" where
  \<comment> \<open>\<open>self.W\<close> as an operand of a matrix product\<close>
  "weight_array w =
     (case w of
        WUnset \<Rightarrow> Inl AttributeError
      | WNone \<Rightarrow> Inl TypeError
      | WNumpy Wm \<Rightarrow> Inr Wm
      | WTorch d Wm \<Rightarrow> Inr Wm)"

definition weight_dtype :: "weight \<Rightarrow> dtype" where
  \<comment> \<open>the dtype of \<open>self.W\<close> as an operand of \<^verbatim>\<open>torch.matmul\<close>\<close>
  "weight_dtype w = (case w of WTorch d Wm \<Rightarrow> d | _ \<Rightarrow> Float64)"

definition torch_mv :: "dtype \<Rightarrow> matrix \<Rightarrow> fvec \<Rightarrow> error + fvec" where
  \<comment> \<open>\<^verbatim>\<open>torch.matmul(W, v)\<close> for a 2-D \<open>W\<close> of dtype \<open>d\<close> and a 1-D float64 \<open>v\<close>: the
      shapes are checked first; the dtypes are compared when the entries of \<open>W\<close> are
      read, which a matrix without entries never are\<close>
  "torch_mv d A v =
     (case matvec A v of
        Inl e \<Rightarrow> Inl e
      | Inr t \<Rightarrow>
          if d \<noteq> Float64 \<and> 0 < nrows A \<and> 0 < ncols A then Inl RuntimeError else Inr t)"

definition quadratic_form :: "estimator \<Rightarrow> fvec \<Rightarrow> pyret result" where
  \<comment> \<open>lines 38 to 44 of \<^verbatim>\<open>gmm_objective\<close>\<close>
  "quadratic_form s mavg =
     (if opt s = ''scipy'' then
        (case weight_array (self_W s) of
           Inl e \<Rightarrow> Raised e s
         | Inr Wm \<Rightarrow>
             (case vecmat mavg Wm of
                Inl e \<Rightarrow> Raised e s
              | Inr t \<Rightarrow>
                  (case dot t mavg of
                     Inl e \<Rightarrow> Raised e s
                   | Inr v \<Rightarrow> Returned (RetFloat v) s)))
      else if opt s = ''torch'' then
        (case weight_array (self_W s) of
           Inl e \<Rightarrow> Raised e s
         | Inr Wm \<Rightarrow>
             (case torch_mv (weight_dtype (self_W s)) Wm mavg of
                Inl e \<Rightarrow> Raised e s
              | Inr t \<Rightarrow>
                  (case dot mavg t of
                     Inl e \<Rightarrow> Raised e s
                   | Inr v \<Rightarrow> Returned (RetFloat v) s)))
      else Returned RetNone s)"

definition gmm_objective :: "externals \<Rightarrow> vec \<Rightarrow> estimator \<Rightarrow> pyret result" where
  "gmm_objective E beta s =
     (case self_z s of
        None \<Rightarrow> Raised AttributeError s
      | Some z \<Rightarrow>
     (case self_y s of
        None \<Rightarrow> Raised AttributeError s
      | Some y \<Rightarrow>
     (case self_x s of
        None \<Rightarrow> Raised AttributeError s
      | Some x \<Rightarrow>
     (case moment_cond s z y x beta of
        Inl e \<Rightarrow> Raised e s
      | Inr moments \<Rightarrow>
     (case assign_W E moments s of
        Raised e s1 \<Rightarrow> Raised e s1
      | Returned u s1 \<Rightarrow> quadratic_form s1 (mean_axis0 moments))))))"

primrec run_minimizer :: "minimizer \<Rightarrow> externals \<Rightarrow> estimator \<Rightarrow> vec result" where
  \<comment> \<open>the minimiser at work on \<open>self.gmm_objective\<close>: an exception of the objective
      leaves the minimiser\<close>
  "run_minimizer (Return res) E s = Returned res s"
| "run_minimizer (Fail e) E s = Raised e s"
| "run_minimizer (Query beta cont) E s =
     (case gmm_objective E beta s of
        Raised e s1 \<Rightarrow> Raised e s1
      | Returned v s1 \<Rightarrow> run_minimizer (cont v) E s1)"

definition jacobian_moment_cond :: "externals \<Rightarrow> estimator \<Rightarrow> matrix result" where
  "jacobian_moment_cond E s =
     (if opt s = ''scipy'' then
        (case self_z s of
           None \<Rightarrow> Raised AttributeError s
         | Some z \<Rightarrow>
        (case self_x s of
           None \<Rightarrow> Raised AttributeError s
         | Some x \<Rightarrow>
        (case matmul (neg_mat (T_mat z)) x of
           Inl e \<Rightarrow> Raised e s
         | Inr J \<Rightarrow> Returned J (s\<lparr>self_jac_est := Some J\<rparr>))))
      else if opt s = ''torch'' then
        (case self_z s of
           None \<Rightarrow> Raised AttributeError s
         | Some z \<Rightarrow>
        (case self_y s of
           None \<Rightarrow> Raised AttributeError s
         | Some y \<Rightarrow>
        (case self_x s of
           None \<Rightarrow> Raised AttributeError s
         | Some x \<Rightarrow>
        (case self_theta s of
           None \<Rightarrow> Raised AttributeError s
         | Some th \<Rightarrow>
        (case torch_func_jacfwd E (moment_cond s) z y x th of
           Inl e \<Rightarrow> Raised e s
         | Inr J3 \<Rightarrow> Returned (sum_axis0 J3) (s\<lparr>self_jac_est := Some (sum_axis0 J3)\<rparr>))))))
      else
        (case self_jac_est s of
           None \<Rightarrow> Raised AttributeError s
         | Some J \<Rightarrow> Returned J s))"

definition covariance :: "externals \<Rightarrow> estimator \<Rightarrow> unit result" where
  \<comment> \<open>the body of the \<^verbatim>\<open>try\<close> of \<^verbatim>\<open>fit\<close>, lines 90 to 92\<close>
  "covariance E s =
     (case jacobian_moment_cond E s of
        Raised e s1 \<Rightarrow> Raised e s1
      | Returned G s1 \<Rightarrow>
          (let s2 = s1\<lparr>self_Gamma := Some G\<rparr> in
           (case weight_array (self_W s2) of
              Inl e \<Rightarrow> Raised e s2
            | Inr Wm \<Rightarrow>
           (case matmul (T_mat G) Wm of
              Inl e \<Rightarrow> Raised e s2
            | Inr GW \<Rightarrow>
           (case matmul GW G of
              Inl e \<Rightarrow> Raised e s2
            | Inr A \<Rightarrow>
           (case np_linalg_inv E A of
              Inl e \<Rightarrow> Raised e s2
            | Inr V \<Rightarrow>
               (let s3 = s2\<lparr>self_vtheta := Some V\<rparr> in
                (case self_n s3 of
                   None \<Rightarrow> Raised AttributeError s3
                 | Some n \<Rightarrow>
                     Returned () (s3\<lparr>self_std_errors := SEVal (sqrt_scaled n (diag V))\<rparr>)))))))))"

definition standard_errors :: "externals \<Rightarrow> estimator \<Rightarrow> estimator" where
  \<comment> \<open>the \<^verbatim>\<open>try\<close> with its bare \<^verbatim>\<open>except\<close>, lines 89 to 94\<close>
  "standard_errors E s =
     (case covariance E s of
        Raised e s1 \<Rightarrow> s1\<lparr>self_std_errors := SENone\<rparr>
      | Returned u s1 \<Rightarrow> s1)"

definition detach_numpy :: "estimator \<Rightarrow> unit result" where
  \<comment> \<open>\<^verbatim>\<open>self.W = self.W.detach().numpy()\<close>: only a tensor has \<^verbatim>\<open>detach\<close>\<close>
  "detach_numpy s =
     (case self_W s of
        WTorch d Wm \<Rightarrow> Returned () (s\<lparr>self_W := WNumpy Wm\<rparr>)
      | _ \<Rightarrow> Raised AttributeError s)"

definition default_fit_method :: "estimator \<Rightarrow> string option \<Rightarrow> string" where
  "default_fit_method s fit_method =
     (case fit_method of
        None \<Rightarrow> (if opt s = ''torch'' then ''l-bfgs'' else ''L-BFGS-B'')
      | Some m \<Rightarrow> m)"

definition stage :: "matrix \<Rightarrow> vec \<Rightarrow> matrix \<Rightarrow> estimator \<Rightarrow> estimator" where
  \<comment> \<open>\<^verbatim>\<open>self.z, self.y, self.x = z, y, x\<close> and \<^verbatim>\<open>self.n, self.k = x.shape\<close>; the
      conversion to float64 tensors of the torch backend keeps every entry\<close>
  "stage z y x s =
     s\<lparr>self_z := Some z, self_y := Some y, self_x := Some x,
       self_n := Some (nrows x), self_k := Some (ncols x)\<rparr>"

definition minimize :: "externals \<Rightarrow> (nat \<Rightarrow> real) \<Rightarrow> matrix \<Rightarrow> vec \<Rightarrow> matrix \<Rightarrow> bool \<Rightarrow> string option
    \<Rightarrow> estimator \<Rightarrow> vec result" where
  \<comment> \<open>lines 56 to 86 of \<^verbatim>\<open>fit\<close>, up to the read of \<^verbatim>\<open>result.x\<close>; \<open>rand\<close> is what
      \<^verbatim>\<open>np.random.rand\<close> draws in this call. With another backend no branch binds
      \<^verbatim>\<open>result\<close>, and line 86 raises.\<close>
  "minimize E rand z y x verbose fit_method s =
     (if opt s = ''scipy'' then
        run_minimizer
          (scipy_optimize_minimize E (default_fit_method s fit_method) verbose
             (Vec (ncols x) rand))
          E (stage z y x s)
      else if opt s = ''torch'' then
        (case run_minimizer
                (torchmin_minimize E (default_fit_method s fit_method) verbose
                   (Vec (ncols x) rand))
                E (stage z y x s) of
           Raised e s1 \<Rightarrow> Raised e s1
         | Returned res s1 \<Rightarrow>
             (case detach_numpy s1 of
                Raised e s2 \<Rightarrow> Raised e s2
              | Returned u s2 \<Rightarrow> Returned res s2))
      else Raised UnboundLocalError s)"

definition fit :: "externals \<Rightarrow> (nat \<Rightarrow> real) \<Rightarrow> matrix \<Rightarrow> vec \<Rightarrow> matrix \<Rightarrow> bool \<Rightarrow> string option
    \<Rightarrow> estimator \<Rightarrow> unit result" where
  "fit E rand z y x verbose fit_method s =
     (case minimize E rand z y x verbose fit_method s of
        Raised e s1 \<Rightarrow> Raised e s1
      | Returned res s1 \<Rightarrow> Returned () (standard_errors E (s1\<lparr>self_theta := Some res\<rparr>)))"

section \<open>Notions the properties speak of\<close>

text \<open>
  The objective evaluations of one run of a minimiser, in order: each point asked for,
  with the instance as it was when the objective was called there.
\<close>

primrec evaluations :: "minimizer \<Rightarrow> externals \<Rightarrow> estimator \<Rightarrow> (vec \<times> estimator) list" where
  "evaluations (Return res) E s = []"
| "evaluations (Fail e) E s = []"
| "evaluations (Query beta cont) E s =
     (beta, s) # (case gmm_objective E beta s of
                    Raised e s1 \<Rightarrow> []
                  | Returned v s1 \<Rightarrow> evaluations (cont v) E s1)"

text \<open>The minimiser \<^verbatim>\<open>fit\<close> calls, and the inverse the objective calls, by backend.\<close>

definition chosen_minimizer :: "externals \<Rightarrow> (nat \<Rightarrow> real) \<Rightarrow> matrix \<Rightarrow> bool \<Rightarrow> string option
    \<Rightarrow> estimator \<Rightarrow> minimizer" where
  "chosen_minimizer E rand x verbose fit_method s =
     (if opt s = ''scipy''
      then scipy_optimize_minimize E (default_fit_method s fit_method) verbose (Vec (ncols x) rand)
      else torchmin_minimize E (default_fit_method s fit_method) verbose (Vec (ncols x) rand))"

definition backend_inverse :: "externals \<Rightarrow> estimator \<Rightarrow> matrix \<Rightarrow> error + matrix" where
  "backend_inverse E s = (if opt s = ''scipy'' then np_linalg_inv E else torch_inverse E)"

text \<open>
  What \<^verbatim>\<open>jacobian_moment_cond\<close> computes from staged data on the two backends: the
  closed form of the linear model, or the summed derivative array.
\<close>

definition jacobian_value :: "externals \<Rightarrow> estimator \<Rightarrow> matrix \<Rightarrow> vec \<Rightarrow> matrix \<Rightarrow> vec \<Rightarrow> error + matrix" where
  "jacobian_value E s z y x th =
     (if opt s = ''scipy'' then matmul (neg_mat (T_mat z)) x
      else (case torch_func_jacfwd E (moment_cond s) z y x th of
              Inl e \<Rightarrow> Inl e
            | Inr J3 \<Rightarrow> Inr (sum_axis0 J3)))"

text \<open>
  Only \<^verbatim>\<open>fit\<close> assigns \<open>self.z\<close>, and only in its scipy and torch branches. So on every
  instance the methods produce, data is staged only under one of these two backends.
\<close>

definition staged_by_fit :: "estimator \<Rightarrow> bool" where
  "staged_by_fit s = (self_z s = None \<or> opt s = ''scipy'' \<or> opt s = ''torch'')"

text \<open>
  The quadratic form \<open>m\<^sup>T W m\<close> as the double sum over the entries, and \<open>m\<^sup>T m\<close>, in the
  arithmetic of the arrays (a NaN entry makes the sum NaN); and the mean of a column of a
  matrix that has a row.
\<close>

definition quadratic_spec :: "fvec \<Rightarrow> matrix \<Rightarrow> pyfloat" where
  "quadratic_spec m W =
     fsum (\<lambda>i. fsum (\<lambda>j. fmul (fmul (felem m i) (Num (entry W i j))) (felem m j)) (flen m))
       (flen m)"

definition column_mean :: "matrix \<Rightarrow> nat \<Rightarrow> real" where
  "column_mean M j = (\<Sum>i<nrows M. entry M i j) / real (nrows M)"

definition squared_norm :: "fvec \<Rightarrow> pyfloat" where
  "squared_norm m = fsum (\<lambda>j. fmul (felem m j) (felem m j)) (flen m)"

text \<open>
  For the Jacobian of a moment function: one coordinate of \<open>beta\<close> is varied, and the entry
  \<open>(i, l)\<close> of the moment matrix, or the sum of column \<open>l\<close> over the observations, is
  differentiated in it. Data is aligned when \<open>z\<close>, \<open>y\<close> and \<open>x\<close> have the same number of
  observations and \<open>beta\<close> has one entry per column of \<open>x\<close>. An n x L x k array is the
  Jacobian of a moment function at \<open>th\<close> when each of its entries is the derivative of the
  entry \<open>(i, l)\<close> in coordinate \<open>j\<close>: what forward-mode differentiation is to return.
\<close>

definition set_coord :: "vec \<Rightarrow> nat \<Rightarrow> real \<Rightarrow> vec" where
  "set_coord b j t = Vec (vlen b) ((velem b)(j := t))"

definition moment_entry :: "moment_function \<Rightarrow> matrix \<Rightarrow> vec \<Rightarrow> matrix \<Rightarrow> vec \<Rightarrow> nat \<Rightarrow> nat \<Rightarrow> real" where
  \<comment> \<open>read only where the moment function returns, as it does on aligned data\<close>
  "moment_entry mc z y x b i l = (case mc z y x b of Inl e \<Rightarrow> 0 | Inr M \<Rightarrow> entry M i l)"

definition summed_moment :: "moment_function \<Rightarrow> matrix \<Rightarrow> vec \<Rightarrow> matrix \<Rightarrow> vec \<Rightarrow> nat \<Rightarrow> real" where
  "summed_moment mc z y x b l =
     (case mc z y x b of Inl e \<Rightarrow> 0 | Inr M \<Rightarrow> (\<Sum>i<nrows M. entry M i l))"

definition aligned :: "matrix \<Rightarrow> vec \<Rightarrow> matrix \<Rightarrow> vec \<Rightarrow> bool" where
  "aligned z y x b = (nrows z = nrows x \<and> vlen y = nrows x \<and> vlen b = ncols x)"

definition is_jacobian_of :: "moment_function \<Rightarrow> matrix \<Rightarrow> vec \<Rightarrow> matrix \<Rightarrow> vec \<Rightarrow> tensor3 \<Rightarrow> bool" where
  "is_jacobian_of mc z y x th J =
     (\<exists>M. mc z y x th = Inr M \<and> dim0 J = nrows M \<and> dim1 J = ncols M \<and> dim2 J = vlen th
        \<and> (\<forall>i<nrows M. \<forall>l<ncols M. \<forall>j<vlen th.
             ((\<lambda>t. moment_entry mc z y x (set_coord th j t) i l)
                has_real_derivative tentry J i l j) (at (velem th j))))"

text \<open>
  Two instances are the same estimator when they were built with the same arguments, and
  have the same data when \<^verbatim>\<open>fit\<close> has staged the same arrays on both. A backend is
  supported when \<^verbatim>\<open>fit\<close> has a branch for it.
\<close>

definition same_estimator :: "estimator \<Rightarrow> estimator \<Rightarrow> bool" where
  "same_estimator s t =
     (moment_cond t = moment_cond s \<and> weighting_matrix t = weighting_matrix s \<and> opt t = opt s)"

definition same_data :: "estimator \<Rightarrow> estimator \<Rightarrow> bool" where
  "same_data s t =
     (same_estimator s t \<and> self_z t = self_z s \<and> self_y t = self_y s \<and> self_x t = self_x s
      \<and> self_n t = self_n s \<and> self_k t = self_k s)"

definition supported :: "estimator \<Rightarrow> bool" where
  "supported s = (opt s = ''scipy'' \<or> opt s = ''torch'')"

text \<open>The matrix \<open>inv((G\<^sup>T W) G)\<close> of line 91, from a Jacobian \<open>G\<close> and the stored \<open>self.W\<close>.\<close>

definition sandwich_inverse :: "externals \<Rightarrow> matrix \<Rightarrow> weight \<Rightarrow> error + matrix" where
  "sandwich_inverse E G w =
     (case weight_array w of
        Inl e \<Rightarrow> Inl e
      | Inr Wm \<Rightarrow>
     (case matmul (T_mat G) Wm of
        Inl e \<Rightarrow> Inl e
      | Inr GW \<Rightarrow>
     (case matmul GW G of
        Inl e \<Rightarrow> Inl e
      | Inr A \<Rightarrow> np_linalg_inv E A)))"

text \<open>
  An inversion routine is exact when a matrix it returns for \<open>A\<close> is square of the size
  of \<open>A\<close> and a right inverse of \<open>A\<close>; the routines of the libraries work in float64 and
  are exact on few matrices. And what makes the square roots of line 92 real in exact
  arithmetic: the quadratic form of the weighting matrix is never negative.
\<close>

definition right_inverse :: "(matrix \<Rightarrow> error + matrix) \<Rightarrow> bool" where
  "right_inverse finv =
     (\<forall>A B. finv A = Inr B \<longrightarrow>
        nrows A = ncols A \<and> nrows B = nrows A \<and> ncols B = nrows A
        \<and> (\<forall>i<nrows A. \<forall>j<nrows A.
              (\<Sum>l<nrows A. entry A i l * entry B l j) = (if i = j then 1 else 0)))"

definition nonneg_form :: "matrix \<Rightarrow> bool" where
  "nonneg_form Wm = (\<forall>w. 0 \<le> (\<Sum>i<nrows Wm. \<Sum>j<ncols Wm. w i * entry Wm i j * w j))"

definition nonneg_weight :: "weight \<Rightarrow> bool" where
  "nonneg_weight w = (\<exists>Wm. weight_array w = Inr Wm \<and> nonneg_form Wm)"

text \<open>
  The instance a call leaves, whether the call returns, and a change made to the instance
  a call leaves.
\<close>

definition state_of :: "'a result \<Rightarrow> estimator" where
  "state_of r = (case r of Returned v s \<Rightarrow> s | Raised e s \<Rightarrow> s)"

definition returns :: "'a result \<Rightarrow> bool" where
  "returns r = (case r of Returned v s \<Rightarrow> True | Raised e s \<Rightarrow> False)"

definition map_state :: "(estimator \<Rightarrow> estimator) \<Rightarrow> 'a result \<Rightarrow> 'a result" where
  "map_state f r = (case r of Returned v s \<Rightarrow> Returned v (f s) | Raised e s \<Rightarrow> Raised e (f s))"

section \<open>Concrete instances\<close>

text \<open>
  Small stand-ins for the libraries, on which the theorems below are run: an inverse that
  knows 1 x 1 matrices, a minimiser that asks for the objective at its starting point and
  returns it, and the derivative array of the linear moment condition.
\<close>

definition inv_1x1 :: "matrix \<Rightarrow> error + matrix" where
  "inv_1x1 A =
     (if nrows A = 1 \<and> ncols A = 1 \<and> entry A 0 0 \<noteq> 0
      then Inr (Matrix 1 1 (\<lambda>i j. 1 / entry A 0 0))
      else Inl LinAlgError)"

definition one_step :: "string \<Rightarrow> bool \<Rightarrow> vec \<Rightarrow> minimizer" where
  "one_step method disp x0 = Query x0 (\<lambda>v. Return x0)"

definition iv_jacfwd :: "moment_function \<Rightarrow> matrix \<Rightarrow> vec \<Rightarrow> matrix \<Rightarrow> vec \<Rightarrow> error + tensor3" where
  "iv_jacfwd mc z y x th =
     Inr (Tensor3 (nrows z) (ncols z) (ncols x) (\<lambda>i l j. - (entry z i l * entry x i j)))"

definition small_externals :: externals where
  "small_externals =
     \<lparr> np_linalg_inv = inv_1x1, torch_inverse = inv_1x1,
       scipy_optimize_minimize = one_step, torchmin_minimize = one_step,
       torch_func_jacfwd = iv_jacfwd \<rparr>"

definition mat1 :: "real \<Rightarrow> matrix" where
  "mat1 a = Matrix 1 1 (\<lambda>i j. a)"

definition vec1 :: "real \<Rightarrow> vec" where
  "vec1 a = Vec 1 (\<lambda>i. a)"

definition identity_scipy :: estimator where
  "identity_scipy = stage (mat1 1) (vec1 1) (mat1 1) (GMMEstimator iv_moment_numpy ''identity'' ''scipy'')"

definition identity_torch :: estimator where
  "identity_torch =
     stage (mat1 1) (vec1 1) (mat1 1) (GMMEstimator iv_moment_pytorch ''identity'' ''torch'')"

definition optimal_scipy :: estimator where
  "optimal_scipy = stage (mat1 1) (vec1 1) (mat1 1) (GMMEstimator iv_moment_numpy ''optimal'' ''scipy'')"

definition empty_scipy :: estimator where
  "empty_scipy =
     stage (Matrix 0 1 (\<lambda>i j. 0)) (Vec 0 (\<lambda>i. 0)) (Matrix 0 1 (\<lambda>i j. 0))
       (GMMEstimator iv_moment_numpy ''identity'' ''scipy'')"

definition fresh_scipy :: estimator where
  "fresh_scipy = GMMEstimator iv_moment_numpy ''identity'' ''scipy''"

definition first_fit :: estimator where
  "first_fit =
     state_of (fit small_externals (\<lambda>i. 0) (mat1 1) (vec1 1) (mat1 1) False None fresh_scipy)"

definition singular_refit :: estimator where
  "singular_refit =
     state_of (fit small_externals (\<lambda>i. 0) (mat1 0) (vec1 1) (mat1 1) False None first_fit)"

definition singular_fit_alone :: estimator where
  "singular_fit_alone =
     state_of (fit small_externals (\<lambda>i. 0) (mat1 0) (vec1 1) (mat1 1) False None fresh_scipy)"

definition misaligned_refit :: estimator where
  "misaligned_refit =
     state_of (fit small_externals (\<lambda>i. 0) (mat1 1) (Vec 2 (\<lambda>i. 1)) (Matrix 2 1 (\<lambda>i j. 1))
                 False None first_fit)"

text \<open>
  Two observations of two regressors, the second observation all zero, with the identity
  as instruments: \<open>x\<close> has rank one, \<open>G = -z\<^sup>T x\<close> has the rows \<open>(20, 11)\<close> and \<open>(0, 0)\<close>,
  and \<open>(G\<^sup>T W) G\<close> under the identity weighting is the singular matrix with the rows
  \<open>(400, 220)\<close> and \<open>(220, 121)\<close>. Every number so far is a small integer, which float64
  holds and multiplies without rounding. \<^verbatim>\<open>np.linalg.inv\<close> eliminates in float64 with
  partial pivoting and solves for the columns of the identity: the multiplier is
  \<open>fl(220 / 400)\<close>, just above \<open>0.55\<close>; its product with \<open>220\<close> rounds to the float above
  \<open>121\<close>, so the second pivot is \<open>121 - fl(fl(220 / 400) * 220) = - 2^(-46)\<close> and not zero; no
  singularity is reported, and the substitution returns the matrix \<open>rank_one_vtheta\<close>.
  (With a fused multiply-add the pivot is \<open>- 11 * 2^(-50)\<close> and the entries differ in size,
  not in sign.) \<open>float64_inv\<close> is an inversion routine that returns this matrix there.
\<close>

definition rank_one_x :: matrix where
  "rank_one_x =
     Matrix 2 2 (\<lambda>i j. if i = 0 \<and> j = 0 then - 20 else if i = 0 \<and> j = 1 then - 11 else 0)"

definition ones2 :: vec where
  "ones2 = Vec 2 (\<lambda>i. 1)"

definition rank_one_vtheta :: matrix where
  "rank_one_vtheta =
     Matrix 2 2
       (\<lambda>i j. if i = 0 \<and> j = 0 then - (1362338887279575 / 64)
              else if i = 1 \<and> j = 1 then - 70368744177664
              else if i < 2 \<and> j < 2 then 2476979795053773 / 64
              else 0)"

definition float64_inv :: "matrix \<Rightarrow> error + matrix" where
  "float64_inv A =
     (if nrows A = 2 \<and> ncols A = 2 \<and> entry A 0 0 = 400 \<and> entry A 0 1 = 220
         \<and> entry A 1 0 = 220 \<and> entry A 1 1 = 121
      then Inr rank_one_vtheta
      else inv_1x1 A)"

definition float64_externals :: externals where
  "float64_externals = small_externals\<lparr>np_linalg_inv := float64_inv\<rparr>"

definition rank_one_fit :: estimator where
  "rank_one_fit =
     state_of (fit float64_externals (\<lambda>i. 0) (eye 2) ones2 rank_one_x False None fresh_scipy)"

section \<open>Evaluating the concrete instances\<close>

lemmas small_defs =
  fit_def minimize_def run_minimizer.simps default_fit_method_def stage_def GMMEstimator_def
  small_externals_def one_step_def inv_1x1_def gmm_objective_def assign_W_def
  optimal_weighting_matrix_def quadratic_form_def weight_array_def weight_dtype_def
  torch_mv_def mean_axis0_def vecmat_def matvec_def dot_def matmul_def T_mat_def neg_mat_def
  scalar_mul_def eye_def
  iv_moment_numpy_def iv_moment_pytorch_def matvec_r_def vsub_def mul_col_def broadcast_def
  bidx_def mat1_def vec1_def standard_errors_def covariance_def jacobian_moment_cond_def
  diag_def sqrt_scaled_def np_sqrt_def detach_numpy_def iv_jacfwd_def sum_axis0_def

lemma iv_moment_small:
  "\<exists>M. iv_moment_numpy (mat1 a) (vec1 b) (mat1 c) (vec1 d) = Inr M \<and> nrows M = 1 \<and> ncols M = 1
     \<and> entry M 0 0 = a * (b - c * d)"
  by (simp add: iv_moment_numpy_def matvec_r_def vsub_def mul_col_def broadcast_def bidx_def
      mat1_def vec1_def)

lemma optimal_scipy_objective:
  "\<exists>s'. gmm_objective small_externals (vec1 0) optimal_scipy = Returned (RetFloat (Num 1)) s'"
  by (simp add: gmm_objective_def optimal_scipy_def stage_def GMMEstimator_def
      iv_moment_numpy_def matvec_r_def vsub_def mul_col_def broadcast_def bidx_def
      mat1_def vec1_def assign_W_def optimal_weighting_matrix_def matmul_def T_mat_def
      scalar_mul_def small_externals_def inv_1x1_def quadratic_form_def weight_array_def
      mean_axis0_def vecmat_def dot_def)

lemma singular_fit:
  "\<exists>res s1 e s2.
     minimize small_externals (\<lambda>i. 0) (mat1 0) (vec1 1) (mat1 1) False None
       (GMMEstimator iv_moment_numpy ''identity'' ''scipy'') = Returned res s1
   \<and> res = Vec 1 (\<lambda>i. 0)
   \<and> covariance small_externals (s1\<lparr>self_theta := Some res\<rparr>) = Raised e s2"
  by (simp add: small_defs)

lemma regular_fit:
  "\<exists>s'. fit small_externals (\<lambda>i. 0) (mat1 1) (vec1 1) (mat1 1) False None
           (GMMEstimator iv_moment_numpy ''identity'' ''scipy'') = Returned () s'
        \<and> self_std_errors s' = SEVal (FVec 1 (\<lambda>i. Num 1))"
  by (simp add: small_defs)

lemma regular_fit_evaluates:
  "evaluations
     (chosen_minimizer small_externals (\<lambda>i. 0) (mat1 1) False None
        (GMMEstimator iv_moment_numpy ''identity'' ''scipy''))
     small_externals
     (stage (mat1 1) (vec1 1) (mat1 1) (GMMEstimator iv_moment_numpy ''identity'' ''scipy''))
   \<noteq> []"
  by (simp add: chosen_minimizer_def small_externals_def one_step_def GMMEstimator_def)

lemma identity_scipy_objective:
  "gmm_objective small_externals (vec1 0) identity_scipy
     = Returned (RetFloat (Num 1)) (identity_scipy\<lparr>self_W := WNumpy (eye 1)\<rparr>)"
  by (simp add: identity_scipy_def small_defs)

lemma two_fits:
  "\<exists>s1 s2 s3 V.
      fit small_externals (\<lambda>i. 0) (mat1 1) (vec1 1) (mat1 1) False None fresh_scipy
        = Returned () s1
    \<and> fit small_externals (\<lambda>i. 0) (mat1 0) (vec1 1) (mat1 1) False None s1 = Returned () s2
    \<and> fit small_externals (\<lambda>i. 0) (mat1 0) (vec1 1) (mat1 1) False None fresh_scipy
        = Returned () s3
    \<and> same_estimator s1 fresh_scipy
    \<and> opt s1 = ''scipy''
    \<and> self_std_errors s2 = SENone
    \<and> self_vtheta s1 = Some V \<and> self_vtheta s2 = Some V \<and> self_vtheta s3 = None"
  by (simp add: fresh_scipy_def small_defs same_estimator_def)

lemma right_inverse_inv_1x1: "right_inverse inv_1x1"
  by (auto simp: right_inverse_def inv_1x1_def split: if_splits)

section \<open>What a method leaves unchanged\<close>

lemma quadratic_form_state:
  "quadratic_form s m = Returned v s' \<Longrightarrow> s' = s"
  "quadratic_form s m = Raised e s' \<Longrightarrow> s' = s"
  unfolding quadratic_form_def
  by (auto split: sum.splits if_splits)

lemma assign_W_Returned:
  "assign_W E M s = Returned u s' \<Longrightarrow> s' = s\<lparr>self_W := self_W s'\<rparr>"
  unfolding assign_W_def
  by (auto split: sum.splits if_splits)

lemma assign_W_Raised:
  "assign_W E M s = Raised e s' \<Longrightarrow> s' = s"
  unfolding assign_W_def
  by (auto split: sum.splits if_splits)

lemma gmm_objective_Returned_frame:
  "gmm_objective E beta s = Returned v s' \<Longrightarrow> s' = s\<lparr>self_W := self_W s'\<rparr>"
  unfolding gmm_objective_def
  by (auto split: option.splits sum.splits result.splits
      dest!: quadratic_form_state assign_W_Returned assign_W_Raised)

lemma gmm_objective_Raised_frame:
  "gmm_objective E beta s = Raised e s' \<Longrightarrow> s' = s\<lparr>self_W := self_W s'\<rparr>"
  unfolding gmm_objective_def
  by (auto split: option.splits sum.splits result.splits
      dest!: quadratic_form_state assign_W_Returned assign_W_Raised)

lemma run_minimizer_Returned_frame:
  "run_minimizer m E s = Returned res s' \<Longrightarrow> s' = s\<lparr>self_W := self_W s'\<rparr>"
proof (induction m arbitrary: s)
  case (Query beta cont)
  from Query.prems obtain v s1 where
    ob: "gmm_objective E beta s = Returned v s1" and
    run: "run_minimizer (cont v) E s1 = Returned res s'"
    by (auto split: result.splits)
  have "cont v \<in> range cont" by simp
  from Query.IH[OF this run] have "s' = s1\<lparr>self_W := self_W s'\<rparr>" .
  moreover from gmm_objective_Returned_frame[OF ob] have "s1 = s\<lparr>self_W := self_W s1\<rparr>" .
  ultimately have "s' = s\<lparr>self_W := self_W s1\<rparr>\<lparr>self_W := self_W s'\<rparr>" by simp
  then show ?case by simp
qed simp_all

lemma run_minimizer_Raised_frame:
  "run_minimizer m E s = Raised e s' \<Longrightarrow> s' = s\<lparr>self_W := self_W s'\<rparr>"
proof (induction m arbitrary: s)
  case (Query beta cont)
  show ?case
  proof (cases "gmm_objective E beta s")
    case (Raised e1 s1)
    with Query.prems have "s' = s1" by simp
    with gmm_objective_Raised_frame[OF Raised] show ?thesis by simp
  next
    case (Returned v s1)
    with Query.prems have run: "run_minimizer (cont v) E s1 = Raised e s'" by simp
    have "cont v \<in> range cont" by simp
    from Query.IH[OF this run] have "s' = s1\<lparr>self_W := self_W s'\<rparr>" .
    moreover from gmm_objective_Returned_frame[OF Returned]
    have "s1 = s\<lparr>self_W := self_W s1\<rparr>" .
    ultimately have "s' = s\<lparr>self_W := self_W s1\<rparr>\<lparr>self_W := self_W s'\<rparr>" by simp
    then show ?thesis by simp
  qed
qed simp_all

lemma jacobian_moment_cond_frame:
  "jacobian_moment_cond E s = Returned G s' \<Longrightarrow> s' = s\<lparr>self_jac_est := Some G\<rparr>"
  "jacobian_moment_cond E s = Raised e s' \<Longrightarrow> s' = s"
  unfolding jacobian_moment_cond_def
  by (auto split: option.splits sum.splits if_splits)

lemma covariance_Raised_frame:
  assumes "covariance E s = Raised e s'"
  shows "self_theta s' = self_theta s \<and> self_W s' = self_W s \<and> self_std_errors s' = self_std_errors s
    \<and> self_z s' = self_z s \<and> opt s' = opt s"
  using assms unfolding covariance_def Let_def
  by (auto split: option.splits sum.splits result.splits dest!: jacobian_moment_cond_frame)

section \<open>The weighting matrix of an objective evaluation\<close>

lemma assign_W_optimal:
  assumes "weighting_matrix s = ''optimal''" and "opt s = ''scipy'' \<or> opt s = ''torch''"
    and "assign_W E M s = Returned u s1"
  shows "\<exists>n G Wm. self_n s = Some n \<and> matmul (T_mat M) M = Inr G
           \<and> backend_inverse E s (scalar_mul (1 / real n) G) = Inr Wm
           \<and> weight_array (self_W s1) = Inr Wm \<and> s1 = s\<lparr>self_W := self_W s1\<rparr>"
  using assms
  unfolding assign_W_def optimal_weighting_matrix_def backend_inverse_def weight_array_def
  by (auto split: option.splits sum.splits if_splits)

lemma assign_W_forgets:
  "weighting_matrix s = ''optimal'' \<or> opt s = ''scipy'' \<or> opt s = ''torch'' \<Longrightarrow>
   assign_W E M s = Returned u s1 \<Longrightarrow> assign_W E M (s\<lparr>self_W := w0\<rparr>) = Returned u s1"
  unfolding assign_W_def optimal_weighting_matrix_def
  by (auto split: option.splits sum.splits if_splits)

text \<open>
  C1. In optimal-weighting mode an objective evaluation at \<open>beta\<close> that returns has
  computed the moment matrix \<open>M\<close> at this \<open>beta\<close> and stored as \<open>self.W\<close> the inverse,
  by the backend's inversion, of \<open>(1/n) * (M\<^sup>T M)\<close>; the value returned is the quadratic
  form under this matrix. Whatever \<open>self.W\<close> held before the call plays no part: from any
  earlier \<open>self.W\<close> the call gives the same value and the same instance.
\<close>

theorem objective_recomputes_optimal_weight:
  assumes "staged_by_fit s" and "weighting_matrix s = ''optimal''"
    and "gmm_objective E beta s = Returned v s'"
  shows "\<exists>z y x n M G Wm.
           self_z s = Some z \<and> self_y s = Some y \<and> self_x s = Some x \<and> self_n s = Some n
           \<and> moment_cond s z y x beta = Inr M
           \<and> matmul (T_mat M) M = Inr G
           \<and> backend_inverse E s (scalar_mul (1 / real n) G) = Inr Wm
           \<and> weight_array (self_W s') = Inr Wm
           \<and> quadratic_form s' (mean_axis0 M) = Returned v s'
           \<and> (\<forall>w0. gmm_objective E beta (s\<lparr>self_W := w0\<rparr>) = Returned v s')"
proof -
  from assms(3) obtain z y x M u s1 where
    z: "self_z s = Some z" and y: "self_y s = Some y" and x: "self_x s = Some x"
    and M: "moment_cond s z y x beta = Inr M"
    and a: "assign_W E M s = Returned u s1"
    and q: "quadratic_form s1 (mean_axis0 M) = Returned v s'"
    unfolding gmm_objective_def
    by (auto split: option.splits sum.splits result.splits)
  from assms(1) z have backend: "opt s = ''scipy'' \<or> opt s = ''torch''"
    by (simp add: staged_by_fit_def)
  from q have s': "s' = s1"
    unfolding quadratic_form_def by (auto split: sum.splits if_splits)
  from assign_W_optimal[OF assms(2) backend a] obtain n G Wm where
    n: "self_n s = Some n" and G: "matmul (T_mat M) M = Inr G"
    and inv: "backend_inverse E s (scalar_mul (1 / real n) G) = Inr Wm"
    and W: "weight_array (self_W s1) = Inr Wm"
    by blast
  have "gmm_objective E beta (s\<lparr>self_W := w0\<rparr>) = Returned v s'" for w0
    using z y x M q assign_W_forgets[OF _ a, of w0] backend
    unfolding gmm_objective_def by simp
  with z y x n M G inv W s' q show ?thesis by blast
qed

theorem objective_recomputes_optimal_weight_witness:
  "\<exists>s' z y x n M G Wm.
       gmm_objective small_externals (vec1 0) optimal_scipy = Returned (RetFloat (Num 1)) s'
     \<and> self_z optimal_scipy = Some z \<and> self_y optimal_scipy = Some y
     \<and> self_x optimal_scipy = Some x \<and> self_n optimal_scipy = Some n
     \<and> moment_cond optimal_scipy z y x (vec1 0) = Inr M
     \<and> matmul (T_mat M) M = Inr G
     \<and> backend_inverse small_externals optimal_scipy (scalar_mul (1 / real n) G) = Inr Wm
     \<and> weight_array (self_W s') = Inr Wm"
proof -
  from optimal_scipy_objective obtain s' where
    ob: "gmm_objective small_externals (vec1 0) optimal_scipy = Returned (RetFloat (Num 1)) s'" ..
  have st: "staged_by_fit optimal_scipy" "weighting_matrix optimal_scipy = ''optimal''"
    by (simp_all add: optimal_scipy_def stage_def GMMEstimator_def staged_by_fit_def)
  from objective_recomputes_optimal_weight[OF st ob] ob show ?thesis by blast
qed

lemma assign_W_any_string:
  assumes "weighting_matrix s \<noteq> ''optimal''" and "wm \<noteq> ''optimal''"
  shows "assign_W E M (s\<lparr>weighting_matrix := wm\<rparr>)
         = map_state (\<lambda>t. t\<lparr>weighting_matrix := wm\<rparr>) (assign_W E M s)"
  using assms by (simp add: assign_W_def map_state_def)

lemma quadratic_form_any_string:
  "quadratic_form (s\<lparr>weighting_matrix := wm\<rparr>) m
   = map_state (\<lambda>t. t\<lparr>weighting_matrix := wm\<rparr>) (quadratic_form s m)"
  by (simp add: quadratic_form_def map_state_def split: sum.splits)

lemma gmm_objective_any_string:
  assumes "weighting_matrix s \<noteq> ''optimal''" and "wm \<noteq> ''optimal''"
  shows "gmm_objective E beta (s\<lparr>weighting_matrix := wm\<rparr>)
         = map_state (\<lambda>t. t\<lparr>weighting_matrix := wm\<rparr>) (gmm_objective E beta s)"
proof -
  have a: "(case map_state (\<lambda>t. t\<lparr>weighting_matrix := wm\<rparr>) (assign_W E M s) of
              Raised e s1 \<Rightarrow> Raised e s1
            | Returned u s1 \<Rightarrow> quadratic_form s1 m)
           = map_state (\<lambda>t. t\<lparr>weighting_matrix := wm\<rparr>)
               (case assign_W E M s of
                  Raised e s1 \<Rightarrow> Raised e s1
                | Returned u s1 \<Rightarrow> quadratic_form s1 m)" for M m
    by (cases "assign_W E M s") (simp_all add: map_state_def quadratic_form_any_string)
  show ?thesis
    unfolding gmm_objective_def
    by (simp add: assign_W_any_string[OF assms] a split: option.splits sum.splits)
      (simp add: map_state_def)
qed

text \<open>
  A weighting string other than "optimal" is compared with "optimal" and not looked at
  otherwise (\<open>gmm_objective_any_string\<close>). On the scipy backend the evaluation stores
  \<^verbatim>\<open>np.eye(L)\<close> and returns. On the torch backend it stores \<^verbatim>\<open>torch.eye(L)\<close>, a float32
  tensor, and the product of line 43 with the float64 mean raises: the evaluation never
  returns a value when the moment matrix has a column, and \<^verbatim>\<open>fit\<close> raises at the first
  evaluation its minimiser asks for.
\<close>

lemma identity_objective_scipy:
  assumes "opt s = ''scipy''" and "weighting_matrix s \<noteq> ''optimal''"
    and "self_z s = Some z" and "self_y s = Some y" and "self_x s = Some x"
    and "moment_cond s z y x beta = Inr M"
  shows "\<exists>v. gmm_objective E beta s
               = Returned (RetFloat v) (s\<lparr>self_W := WNumpy (eye (ncols M))\<rparr>)"
  using assms
  by (simp add: gmm_objective_def assign_W_def quadratic_form_def weight_array_def
      vecmat_def dot_def eye_def mean_axis0_def)

lemma identity_objective_torch:
  assumes "opt s = ''torch''" and "weighting_matrix s \<noteq> ''optimal''"
    and "self_z s = Some z" and "self_y s = Some y" and "self_x s = Some x"
    and "moment_cond s z y x beta = Inr M" and "0 < ncols M"
  shows "gmm_objective E beta s
           = Raised RuntimeError (s\<lparr>self_W := WTorch Float32 (eye (ncols M))\<rparr>)"
  using assms
  by (simp add: gmm_objective_def assign_W_def quadratic_form_def weight_array_def
      weight_dtype_def torch_mv_def matvec_def eye_def mean_axis0_def)

lemma fit_identity_torch_raises:
  assumes "opt s = ''torch''" and "weighting_matrix s \<noteq> ''optimal''"
    and "chosen_minimizer E rand x verbose fit_method s = Query b c"
    and "moment_cond s z y x b = Inr M" and "0 < ncols M"
  shows "fit E rand z y x verbose fit_method s
           = Raised RuntimeError ((stage z y x s)\<lparr>self_W := WTorch Float32 (eye (ncols M))\<rparr>)"
proof -
  have st: "opt (stage z y x s) = ''torch''" "weighting_matrix (stage z y x s) \<noteq> ''optimal''"
    "self_z (stage z y x s) = Some z" "self_y (stage z y x s) = Some y"
    "self_x (stage z y x s) = Some x" "moment_cond (stage z y x s) z y x b = Inr M"
    using assms by (simp_all add: stage_def)
  from assms(1,3) have m: "torchmin_minimize E (default_fit_method s fit_method) verbose
           (Vec (ncols x) rand) = Query b c"
    by (simp add: chosen_minimizer_def)
  show ?thesis
    using assms(1) by (simp add: fit_def minimize_def m identity_objective_torch[OF st assms(5)])
qed

text \<open>
  C3. Identity weighting under the torch backend, on one observation of one instrument
  and one regressor, all equal to 1: the objective evaluation stores the 1 x 1 identity
  made by \<^verbatim>\<open>torch.eye\<close> and raises RuntimeError instead of returning the quadratic form,
  and so does \<^verbatim>\<open>fit\<close> on these data. The same evaluation under the scipy backend
  returns 1, the quadratic form under the identity.
\<close>

theorem torch_identity_objective_raises:
  "gmm_objective small_externals (vec1 0) identity_torch
     = Raised RuntimeError (identity_torch\<lparr>self_W := WTorch Float32 (eye 1)\<rparr>)
   \<and> fit small_externals (\<lambda>i. 0) (mat1 1) (vec1 1) (mat1 1) False None
        (GMMEstimator iv_moment_pytorch ''identity'' ''torch'')
     = Raised RuntimeError (identity_torch\<lparr>self_W := WTorch Float32 (eye 1)\<rparr>)
   \<and> gmm_objective small_externals (vec1 0) identity_scipy
     = Returned (RetFloat (Num 1)) (identity_scipy\<lparr>self_W := WNumpy (eye 1)\<rparr>)"
  by (simp add: identity_torch_def identity_scipy_def small_defs)


section \<open>The value of the objective\<close>

lemma fsum_Num: "fsum (\<lambda>i. Num (g i)) m = Num (\<Sum>i<m. g i)"
  by (induction m) simp_all

lemma fmul_NaN_right: "fmul a NaN = NaN"
  by (cases a) simp_all

lemma fadd_NaN_right: "fadd a NaN = NaN"
  by (cases a) simp_all

lemma fsum_NaN: "i < m \<Longrightarrow> f i = NaN \<Longrightarrow> fsum f m = NaN"
proof (induction m)
  case 0
  then show ?case by simp
next
  case (Suc m)
  show ?case
  proof (cases "i = m")
    case True
    with Suc.prems show ?thesis by (simp add: fadd_NaN_right)
  next
    case False
    with Suc.prems have "i < m" by simp
    with Suc have "fsum f m = NaN" by simp
    then show ?thesis by simp
  qed
qed

lemma mean_axis0_real:
  "0 < nrows M \<Longrightarrow> mean_axis0 M = FVec (ncols M) (\<lambda>j. Num (column_mean M j))"
  by (simp add: mean_axis0_def column_mean_def)

lemma mean_axis0_empty:
  "nrows M = 0 \<Longrightarrow> mean_axis0 M = FVec (ncols M) (\<lambda>j. NaN)"
  by (simp add: mean_axis0_def)

lemma quadratic_spec_real:
  "quadratic_spec (FVec L (\<lambda>j. Num (a j))) W = Num (\<Sum>i<L. \<Sum>j<L. a i * entry W i j * a j)"
  by (simp add: quadratic_spec_def fsum_Num)

lemma quadratic_spec_NaN:
  "0 < L \<Longrightarrow> quadratic_spec (FVec L (\<lambda>j. NaN)) W = NaN"
  unfolding quadratic_spec_def
  by (rule fsum_NaN[of 0]) (simp_all add: fsum_NaN[of 0])

lemma scipy_product_real:
  assumes "nrows W = L" and "ncols W = L"
  shows "\<exists>t. vecmat (FVec L (\<lambda>j. Num (a j))) W = Inr t
           \<and> dot t (FVec L (\<lambda>j. Num (a j))) = Inr (quadratic_spec (FVec L (\<lambda>j. Num (a j))) W)"
proof -
  have "(\<Sum>j<L. (\<Sum>i<L. a i * entry W i j) * a j) = (\<Sum>i<L. \<Sum>j<L. a i * entry W i j * a j)"
    by (subst sum.swap) (simp add: sum_distrib_right)
  then show ?thesis
    using assms by (simp add: vecmat_def dot_def quadratic_spec_real fsum_Num)
qed

lemma torch_product_real:
  assumes "nrows W = L" and "ncols W = L"
  shows "\<exists>t. matvec W (FVec L (\<lambda>j. Num (a j))) = Inr t
           \<and> dot (FVec L (\<lambda>j. Num (a j))) t = Inr (quadratic_spec (FVec L (\<lambda>j. Num (a j))) W)"
proof -
  have "(\<Sum>i<L. a i * (\<Sum>j<L. entry W i j * a j)) = (\<Sum>i<L. \<Sum>j<L. a i * entry W i j * a j)"
    by (simp add: sum_distrib_left mult.assoc)
  then show ?thesis
    using assms by (simp add: matvec_def dot_def quadratic_spec_real fsum_Num)
qed

lemma scipy_product_NaN:
  assumes "nrows W = L" and "ncols W = L"
  shows "\<exists>t. vecmat (FVec L (\<lambda>j. NaN)) W = Inr t
           \<and> dot t (FVec L (\<lambda>j. NaN)) = Inr (quadratic_spec (FVec L (\<lambda>j. NaN)) W)"
proof (cases "L = 0")
  case True
  with assms show ?thesis by (simp add: vecmat_def dot_def quadratic_spec_def)
next
  case False
  then have "0 < L" by simp
  then show ?thesis
    using assms by (simp add: vecmat_def dot_def quadratic_spec_NaN fmul_NaN_right fsum_NaN[of 0])
qed

lemma torch_product_NaN:
  assumes "nrows W = L" and "ncols W = L"
  shows "\<exists>t. matvec W (FVec L (\<lambda>j. NaN)) = Inr t
           \<and> dot (FVec L (\<lambda>j. NaN)) t = Inr (quadratic_spec (FVec L (\<lambda>j. NaN)) W)"
proof (cases "L = 0")
  case True
  with assms show ?thesis by (simp add: matvec_def dot_def quadratic_spec_def)
next
  case False
  then have "0 < L" by simp
  then show ?thesis
    using assms by (simp add: matvec_def dot_def quadratic_spec_NaN fsum_NaN[of 0])
qed

lemma scipy_product:
  assumes "vecmat (mean_axis0 M) W = Inr t" and "dot t (mean_axis0 M) = Inr v"
  shows "nrows W = ncols M \<and> ncols W = ncols M \<and> v = quadratic_spec (mean_axis0 M) W"
proof -
  from assms(1) have r: "nrows W = ncols M" and t: "flen t = ncols W"
    by (auto simp: vecmat_def mean_axis0_def split: if_splits)
  from assms(2) t have c: "ncols W = ncols M"
    by (auto simp: dot_def mean_axis0_def split: if_splits)
  show ?thesis
  proof (cases "nrows M = 0")
    case True
    from scipy_product_NaN[OF r c] assms r c show ?thesis
      by (auto simp: mean_axis0_empty[OF True])
  next
    case False
    then have pos: "0 < nrows M" by simp
    from scipy_product_real[OF r c, of "column_mean M"] assms r c show ?thesis
      by (auto simp: mean_axis0_real[OF pos])
  qed
qed

lemma torch_product:
  assumes "matvec W (mean_axis0 M) = Inr t" and "dot (mean_axis0 M) t = Inr v"
  shows "nrows W = ncols M \<and> ncols W = ncols M \<and> v = quadratic_spec (mean_axis0 M) W"
proof -
  from assms(1) have c: "ncols W = ncols M" and t: "flen t = nrows W"
    by (auto simp: matvec_def mean_axis0_def split: if_splits)
  from assms(2) t have r: "nrows W = ncols M"
    by (auto simp: dot_def mean_axis0_def split: if_splits)
  show ?thesis
  proof (cases "nrows M = 0")
    case True
    from torch_product_NaN[OF r c] assms r c show ?thesis
      by (auto simp: mean_axis0_empty[OF True])
  next
    case False
    then have pos: "0 < nrows M" by simp
    from torch_product_real[OF r c, of "column_mean M"] assms r c show ?thesis
      by (auto simp: mean_axis0_real[OF pos])
  qed
qed

lemma torch_mv_Inr: "torch_mv d A v = Inr t \<Longrightarrow> matvec A v = Inr t"
  by (auto simp: torch_mv_def split: sum.splits if_splits)

lemma quadratic_form_value:
  assumes "quadratic_form s (mean_axis0 M) = Returned r s'"
    and "opt s = ''scipy'' \<or> opt s = ''torch''"
  shows "\<exists>Wm. weight_array (self_W s) = Inr Wm \<and> nrows Wm = ncols M \<and> ncols Wm = ncols M
           \<and> r = RetFloat (quadratic_spec (mean_axis0 M) Wm) \<and> s' = s"
  using assms unfolding quadratic_form_def
  by (auto split: sum.splits if_splits dest: scipy_product torch_product dest!: torch_mv_Inr)

text \<open>
  C2. An objective evaluation that returns gives the number \<open>mavg\<^sup>T W mavg\<close>: \<open>mavg\<close> is
  the mean over the rows of the moment matrix \<open>M\<close> computed at this \<open>beta\<close>, \<open>W\<close> is the
  L x L weighting matrix the evaluation has stored, and the product is the double sum
  over \<open>mavg i * W i j * mavg j\<close>, on both backends. When \<open>M\<close> has a row this is a real
  number, the quadratic form of the column means.
\<close>

theorem objective_value_quadratic_form:
  assumes "staged_by_fit s" and "gmm_objective E beta s = Returned r s'"
  shows "\<exists>z y x M Wm.
           self_z s = Some z \<and> self_y s = Some y \<and> self_x s = Some x
         \<and> moment_cond s z y x beta = Inr M
         \<and> weight_array (self_W s') = Inr Wm
         \<and> nrows Wm = ncols M \<and> ncols Wm = ncols M
         \<and> r = RetFloat (quadratic_spec (mean_axis0 M) Wm)
         \<and> (0 < nrows M \<longrightarrow>
              r = RetFloat (Num (\<Sum>i<ncols M. \<Sum>j<ncols M.
                                   column_mean M i * entry Wm i j * column_mean M j)))"
proof -
  from assms(2) obtain z y x M u s1 where
    z: "self_z s = Some z" and y: "self_y s = Some y" and x: "self_x s = Some x"
    and M: "moment_cond s z y x beta = Inr M"
    and a: "assign_W E M s = Returned u s1"
    and q: "quadratic_form s1 (mean_axis0 M) = Returned r s'"
    unfolding gmm_objective_def
    by (auto split: option.splits sum.splits result.splits)
  from assms(1) z have "opt s = ''scipy'' \<or> opt s = ''torch''"
    by (simp add: staged_by_fit_def)
  moreover from assign_W_Returned[OF a] have "opt s1 = opt s"
    by (metis estimator.select_convs(3) estimator.surjective estimator.update_convs(9))
  ultimately have backend: "opt s1 = ''scipy'' \<or> opt s1 = ''torch''" by simp
  from quadratic_form_value[OF q backend] obtain Wm where
    W: "weight_array (self_W s') = Inr Wm" "nrows Wm = ncols M" "ncols Wm = ncols M"
    and r: "r = RetFloat (quadratic_spec (mean_axis0 M) Wm)"
    by blast
  have real: "0 < nrows M \<longrightarrow>
          r = RetFloat (Num (\<Sum>i<ncols M. \<Sum>j<ncols M.
                               column_mean M i * entry Wm i j * column_mean M j))"
    using r by (simp add: mean_axis0_real quadratic_spec_real)
  show ?thesis
    apply (rule exI[of _ z], rule exI[of _ y], rule exI[of _ x], rule exI[of _ M],
        rule exI[of _ Wm])
    using z y x M W r real by simp
qed

theorem objective_value_quadratic_form_witness:
  "\<exists>z y x M Wm.
       gmm_objective small_externals (vec1 0) optimal_scipy
         = Returned (RetFloat (Num 1)) (optimal_scipy\<lparr>self_W := WNumpy Wm\<rparr>)
     \<and> self_z optimal_scipy = Some z \<and> self_y optimal_scipy = Some y
     \<and> self_x optimal_scipy = Some x
     \<and> moment_cond optimal_scipy z y x (vec1 0) = Inr M
     \<and> nrows Wm = ncols M \<and> ncols Wm = ncols M
     \<and> RetFloat (Num 1) = RetFloat (quadratic_spec (mean_axis0 M) Wm)"
proof -
  have ob: "\<exists>Wm. gmm_objective small_externals (vec1 0) optimal_scipy
         = Returned (RetFloat (Num 1)) (optimal_scipy\<lparr>self_W := WNumpy Wm\<rparr>)"
    by (simp add: optimal_scipy_def small_defs)
  then obtain W0 where ob: "gmm_objective small_externals (vec1 0) optimal_scipy
         = Returned (RetFloat (Num 1)) (optimal_scipy\<lparr>self_W := WNumpy W0\<rparr>)" ..
  have st: "staged_by_fit optimal_scipy"
    by (simp add: optimal_scipy_def stage_def GMMEstimator_def staged_by_fit_def)
  from objective_value_quadratic_form[OF st ob] obtain z y x M Wm where
     h: "self_z optimal_scipy = Some z" "self_y optimal_scipy = Some y"
        "self_x optimal_scipy = Some x" "moment_cond optimal_scipy z y x (vec1 0) = Inr M"
        "weight_array (self_W (optimal_scipy\<lparr>self_W := WNumpy W0\<rparr>)) = Inr Wm"
        "nrows Wm = ncols M" "ncols Wm = ncols M"
        "RetFloat (Num 1) = RetFloat (quadratic_spec (mean_axis0 M) Wm)"
    by blast
  from h(5) have "Wm = W0" by (simp add: weight_array_def)
  with h ob show ?thesis by blast
qed

lemma quadratic_spec_eye_real:
  "quadratic_spec (FVec L (\<lambda>j. Num (a j))) (eye L) = Num (\<Sum>j<L. (a j)\<^sup>2)"
proof -
  have "(\<Sum>j<L. a i * (if i = j then 1 else 0) * a j) = (if i < L then (a i)\<^sup>2 else 0)" for i
  proof -
    have "(\<Sum>j<L. a i * (if i = j then 1 else 0) * a j)
          = (\<Sum>j\<in>{..<L}. if i = j then a i * a j else 0)"
      by (rule sum.cong) simp_all
    also have "\<dots> = (if i \<in> {..<L} then a i * a i else 0)"
      by (simp only: sum.delta' finite_lessThan)
    finally show ?thesis by (simp add: power2_eq_square)
  qed
  then show ?thesis
    by (simp add: quadratic_spec_real eye_def)
qed

lemma squared_norm_real:
  "squared_norm (FVec L (\<lambda>j. Num (a j))) = Num (\<Sum>j<L. (a j)\<^sup>2)"
  by (simp add: squared_norm_def fsum_Num power2_eq_square)

lemma squared_norm_NaN:
  "0 < L \<Longrightarrow> squared_norm (FVec L (\<lambda>j. NaN)) = NaN"
  by (simp add: squared_norm_def fsum_NaN[of 0])

lemma quadratic_spec_eye_mean:
  "quadratic_spec (mean_axis0 M) (eye (ncols M)) = squared_norm (mean_axis0 M)"
proof (cases "nrows M = 0")
  case True
  show ?thesis
  proof (cases "ncols M = 0")
    case True
    then show ?thesis by (simp add: quadratic_spec_def squared_norm_def mean_axis0_def)
  next
    case False
    then show ?thesis
      using \<open>nrows M = 0\<close> by (simp add: mean_axis0_empty quadratic_spec_NaN squared_norm_NaN)
  qed
next
  case False
  then show ?thesis
    by (simp add: mean_axis0_real quadratic_spec_eye_real squared_norm_real)
qed

lemma fsum_cong: "(\<And>i. i < n \<Longrightarrow> f i = g i) \<Longrightarrow> fsum f n = fsum g n"
  by (induction n) simp_all

lemma fsum_numbers: "(\<And>i. i < n \<Longrightarrow> f i = Num (g i)) \<Longrightarrow> fsum f n = Num (\<Sum>i<n. g i)"
  using fsum_cong[of n f "\<lambda>i. Num (g i)"] by (simp add: fsum_Num)

lemma squared_norm_numbers:
  assumes "\<And>j. j < flen m \<Longrightarrow> felem m j = Num (a j)"
  shows "squared_norm m = Num (\<Sum>j<flen m. (a j)\<^sup>2)"
  unfolding squared_norm_def
  by (rule fsum_numbers) (simp add: assms power2_eq_square)

lemma squared_norm_has_NaN:
  "j < flen m \<Longrightarrow> felem m j = NaN \<Longrightarrow> squared_norm m = NaN"
  unfolding squared_norm_def by (rule fsum_NaN[of j]) simp_all

lemma numbers_or_NaN:
  "(\<exists>j<L. felem m j = NaN) \<or> (\<exists>a. \<forall>j<L. felem m j = Num (a j))"
proof (cases "\<exists>j<L. felem m j = NaN")
  case True
  then show ?thesis by simp
next
  case False
  then have "\<forall>j. \<exists>a. j < L \<longrightarrow> felem m j = Num a"
    by (metis pyfloat.exhaust)
  then have "\<exists>a. \<forall>j. j < L \<longrightarrow> felem m j = Num (a j)"
    by (rule choice)
  then show ?thesis by blast
qed

lemma eye_column_numbers:
  assumes "\<And>i. i < L \<Longrightarrow> felem m i = Num (a i)" and "j < L"
  shows "fsum (\<lambda>i. fmul (felem m i) (Num (entry (eye L) i j))) L = Num (a j)"
proof -
  have "fsum (\<lambda>i. fmul (felem m i) (Num (entry (eye L) i j))) L
        = Num (\<Sum>i<L. a i * (if i = j then 1 else 0))"
    by (rule fsum_numbers) (simp add: assms eye_def)
  also have "(\<Sum>i<L. a i * (if i = j then 1 else 0)) = (\<Sum>i\<in>{..<L}. if j = i then a i else 0)"
    by (rule sum.cong) auto
  also have "\<dots> = a j"
    using assms(2) by (simp add: sum.delta')
  finally show ?thesis .
qed

lemma identity_product_scipy:
  "\<exists>t. vecmat m (eye (flen m)) = Inr t \<and> dot t m = Inr (squared_norm m)"
proof -
  let ?L = "flen m"
  let ?t = "FVec ?L (\<lambda>j. fsum (\<lambda>i. fmul (felem m i) (Num (entry (eye ?L) i j))) ?L)"
  have t: "vecmat m (eye ?L) = Inr ?t"
    by (simp add: vecmat_def eye_def)
  from numbers_or_NaN[of ?L m] have "dot ?t m = Inr (squared_norm m)"
  proof
    assume "\<exists>j<?L. felem m j = NaN"
    then obtain j where j: "j < ?L" "felem m j = NaN" by blast
    have "fsum (\<lambda>i. fmul (felem ?t i) (felem m i)) ?L = NaN"
      by (rule fsum_NaN[of j]) (simp_all add: j fmul_NaN_right)
    with squared_norm_has_NaN[OF j] show ?thesis by (simp add: dot_def)
  next
    assume "\<exists>a. \<forall>j<?L. felem m j = Num (a j)"
    then obtain a where a: "\<And>j. j < ?L \<Longrightarrow> felem m j = Num (a j)" by blast
    have "fsum (\<lambda>i. fmul (felem ?t i) (felem m i)) ?L = Num (\<Sum>i<?L. a i * a i)"
      by (rule fsum_numbers) (simp add: a eye_column_numbers[of ?L m a])
    with squared_norm_numbers[of m a, OF a] show ?thesis
      by (simp add: dot_def power2_eq_square)
  qed
  with t show ?thesis by blast
qed

lemma identity_reduction_scipy:
  assumes "opt s = ''scipy''" and "self_W s = WNumpy (eye (flen m))"
  shows "quadratic_form s m = Returned (RetFloat (squared_norm m)) s"
  using assms identity_product_scipy[of m]
  by (auto simp: quadratic_form_def weight_array_def)

text \<open>
  C10. On the scipy backend with a weighting string other than "optimal", an objective
  evaluation that returns gives \<open>mavg\<^sup>T mavg\<close>, for the mean \<open>mavg\<close> of the moment matrix
  over its rows. The reduction of lines 38 and 39 does so on every vector \<open>m\<close> of length L
  in the place of the mean, whatever its entries: when an entry of \<open>m\<close> is NaN the value is
  NaN, and when every entry of \<open>m\<close> is a number the value is the sum of their squares, a
  number that is not negative. Which of the two holds of the mean is decided by the data:
  the mean has NaN entries when there is no observation, and in float64 also when the
  moments overflow or the data holds a NaN.
\<close>

theorem identity_objective_squared_norm:
  assumes "opt s = ''scipy''" and "weighting_matrix s \<noteq> ''optimal''"
    and "gmm_objective E beta s = Returned r s'"
  shows "\<exists>z y x M.
           self_z s = Some z \<and> self_y s = Some y \<and> self_x s = Some x
         \<and> moment_cond s z y x beta = Inr M
         \<and> r = RetFloat (squared_norm (mean_axis0 M))
         \<and> (\<forall>m. flen m = ncols M \<longrightarrow>
                quadratic_form s' m = Returned (RetFloat (squared_norm m)) s'
              \<and> ((\<exists>j<ncols M. felem m j = NaN) \<longrightarrow> squared_norm m = NaN)
              \<and> (\<forall>a. (\<forall>j<ncols M. felem m j = Num (a j)) \<longrightarrow>
                     squared_norm m = Num (\<Sum>j<ncols M. (a j)\<^sup>2)
                     \<and> 0 \<le> (\<Sum>j<ncols M. (a j)\<^sup>2)))"
proof -
  from assms(3) obtain z y x M u s1 where
    z: "self_z s = Some z" and y: "self_y s = Some y" and x: "self_x s = Some x"
    and M: "moment_cond s z y x beta = Inr M"
    and a: "assign_W E M s = Returned u s1"
    and q: "quadratic_form s1 (mean_axis0 M) = Returned r s'"
    unfolding gmm_objective_def
    by (auto split: option.splits sum.splits result.splits)
  from a assms(1,2) have s1: "s1 = s\<lparr>self_W := WNumpy (eye (ncols M))\<rparr>"
    by (simp add: assign_W_def)
  from quadratic_form_state(1)[OF q] have s': "s' = s1" .
  have o: "opt s' = ''scipy''" and W: "self_W s' = WNumpy (eye (ncols M))"
    using assms(1) by (simp_all add: s' s1)
  have len: "flen (mean_axis0 M) = ncols M" by (simp add: mean_axis0_def)
  from q identity_reduction_scipy[of s' "mean_axis0 M"] o W
  have r: "r = RetFloat (squared_norm (mean_axis0 M))"
    by (simp add: s' len)
  have gen: "quadratic_form s' m = Returned (RetFloat (squared_norm m)) s'
              \<and> ((\<exists>j<ncols M. felem m j = NaN) \<longrightarrow> squared_norm m = NaN)
              \<and> (\<forall>a. (\<forall>j<ncols M. felem m j = Num (a j)) \<longrightarrow>
                     squared_norm m = Num (\<Sum>j<ncols M. (a j)\<^sup>2)
                     \<and> 0 \<le> (\<Sum>j<ncols M. (a j)\<^sup>2))"
    if m: "flen m = ncols M" for m
  proof (intro conjI impI allI)
    from identity_reduction_scipy[of s' m] o W m
    show "quadratic_form s' m = Returned (RetFloat (squared_norm m)) s'" by simp
  next
    assume "\<exists>j<ncols M. felem m j = NaN"
    with m squared_norm_has_NaN[of _ m] show "squared_norm m = NaN" by auto
  next
    fix a assume "\<forall>j<ncols M. felem m j = Num (a j)"
    with m squared_norm_numbers[of m a]
    show "squared_norm m = Num (\<Sum>j<ncols M. (a j)\<^sup>2)" by simp
  next
    fix a
    show "0 \<le> (\<Sum>j<ncols M. (a j :: real)\<^sup>2)" by (simp add: sum_nonneg)
  qed
  show ?thesis
    apply (rule exI[of _ z], rule exI[of _ y], rule exI[of _ x], rule exI[of _ M])
    using z y x M r gen by simp
qed

theorem identity_objective_squared_norm_witness:
  "\<exists>z y x M.
       gmm_objective small_externals (vec1 0) identity_scipy
         = Returned (RetFloat (Num 1)) (identity_scipy\<lparr>self_W := WNumpy (eye 1)\<rparr>)
     \<and> self_z identity_scipy = Some z \<and> self_y identity_scipy = Some y
     \<and> self_x identity_scipy = Some x
     \<and> moment_cond identity_scipy z y x (vec1 0) = Inr M
     \<and> RetFloat (Num 1) = RetFloat (squared_norm (mean_axis0 M))
     \<and> squared_norm (FVec (ncols M) (\<lambda>j. Num 3)) = Num 9
     \<and> squared_norm (FVec (ncols M) (\<lambda>j. NaN)) = NaN"
proof -
  have st: "opt identity_scipy = ''scipy''" "weighting_matrix identity_scipy \<noteq> ''optimal''"
    by (simp_all add: identity_scipy_def stage_def GMMEstimator_def)
  from identity_objective_squared_norm[OF st identity_scipy_objective] obtain z y x M where
    h: "self_z identity_scipy = Some z" "self_y identity_scipy = Some y"
       "self_x identity_scipy = Some x"
       "moment_cond identity_scipy z y x (vec1 0) = Inr M"
       "RetFloat (Num 1) = RetFloat (squared_norm (mean_axis0 M))"
    and g: "\<And>m. flen m = ncols M \<Longrightarrow>
              ((\<exists>j<ncols M. felem m j = NaN) \<longrightarrow> squared_norm m = NaN)
              \<and> (\<forall>a. (\<forall>j<ncols M. felem m j = Num (a j)) \<longrightarrow>
                     squared_norm m = Num (\<Sum>j<ncols M. (a j)\<^sup>2))"
    by blast
  from h(1,2,3,4) have c: "ncols M = 1"
    using iv_moment_small[of 1 1 1 0]
    by (auto simp: identity_scipy_def stage_def GMMEstimator_def)
  have g2: "squared_norm m = Num (\<Sum>j<ncols M. (a j)\<^sup>2)"
    if "flen m = ncols M" "\<forall>j<ncols M. felem m j = Num (a j)" for m a
    using g[OF that(1)] that(2) by blast
  have g1: "squared_norm m = NaN"
    if "flen m = ncols M" "\<exists>j<ncols M. felem m j = NaN" for m
    using g[OF that(1)] that(2) by blast
  from g2[of "FVec (ncols M) (\<lambda>j. Num 3)" "\<lambda>j. 3"]
  have n3: "squared_norm (FVec (ncols M) (\<lambda>j. Num 3)) = Num 9" by (simp add: c)
  from g1[of "FVec (ncols M) (\<lambda>j. NaN)"] c
  have nn: "squared_norm (FVec (ncols M) (\<lambda>j. NaN)) = NaN" by simp
  from h n3 nn identity_scipy_objective show ?thesis by blast
qed


text \<open>
  The evaluation on data with no observation: the mean of the empty moment matrix is NaN,
  and so is the objective, which is then not a non-negative number.
\<close>

theorem identity_objective_squared_norm_counterexample:
  "opt empty_scipy = ''scipy'' \<and> weighting_matrix empty_scipy \<noteq> ''optimal''
   \<and> gmm_objective small_externals (vec1 0) empty_scipy
       = Returned (RetFloat NaN) (empty_scipy\<lparr>self_W := WNumpy (eye 1)\<rparr>)"
  by (simp add: empty_scipy_def small_defs)

section \<open>The covariance computation of \<^verbatim>\<open>fit\<close>\<close>

lemma run_minimizer_none:
  "evaluations m E s = [] \<Longrightarrow> run_minimizer m E s = Returned res s' \<Longrightarrow> s' = s"
  by (cases m) simp_all

lemma run_minimizer_last:
  "run_minimizer m E s = Returned res s' \<Longrightarrow> evaluations m E s \<noteq> [] \<Longrightarrow>
   \<exists>v. gmm_objective E (fst (last (evaluations m E s))) (snd (last (evaluations m E s)))
        = Returned v s'"
proof (induction m arbitrary: s)
  case (Return r)
  then show ?case by simp
next
  case (Fail e)
  then show ?case by simp
next
  case (Query beta cont)
  from Query.prems(1) obtain v s1 where
    ob: "gmm_objective E beta s = Returned v s1" and
    run: "run_minimizer (cont v) E s1 = Returned res s'"
    by (auto split: result.splits)
  show ?case
  proof (cases "evaluations (cont v) E s1 = []")
    case True
    from True run have "s' = s1" by (rule run_minimizer_none)
    with ob True show ?thesis by simp
  next
    case False
    have "cont v \<in> range cont" by simp
    from Query.IH[OF this run False] ob False show ?thesis by simp
  qed
qed

lemma minimize_chosen:
  assumes "minimize E rand z y x verbose fit_method s = Returned res s1"
  shows "(opt s = ''scipy'' \<or> opt s = ''torch'') \<and>
         (\<exists>s0. run_minimizer (chosen_minimizer E rand x verbose fit_method s) E (stage z y x s)
                 = Returned res s0
               \<and> weight_array (self_W s1) = weight_array (self_W s0)
               \<and> (opt s = ''scipy'' \<longrightarrow> s1 = s0)
               \<and> (opt s = ''torch'' \<longrightarrow>
                    (\<exists>d Wm. self_W s0 = WTorch d Wm \<and> s1 = s0\<lparr>self_W := WNumpy Wm\<rparr>)))"
  using assms unfolding minimize_def chosen_minimizer_def detach_numpy_def weight_array_def
  by (auto split: if_splits result.splits weight.splits)

lemma covariance_Returned:
  assumes "covariance E s = Returned u s'"
  shows "\<exists>G Wm GW A V n.
           jacobian_moment_cond E s = Returned G (s\<lparr>self_jac_est := Some G\<rparr>)
         \<and> weight_array (self_W s) = Inr Wm
         \<and> matmul (T_mat G) Wm = Inr GW \<and> matmul GW G = Inr A
         \<and> np_linalg_inv E A = Inr V \<and> self_n s = Some n
         \<and> s' = s\<lparr>self_jac_est := Some G, self_Gamma := Some G, self_vtheta := Some V,
                  self_std_errors := SEVal (sqrt_scaled n (diag V))\<rparr>"
  using assms unfolding covariance_def Let_def
  by (auto split: option.splits sum.splits result.splits dest!: jacobian_moment_cond_frame)

lemma jacobian_moment_cond_value:
  assumes "jacobian_moment_cond E s = Returned G s'"
    and "opt s = ''scipy'' \<or> opt s = ''torch''"
  shows "\<exists>z y x. self_z s = Some z \<and> self_x s = Some x
           \<and> (opt s = ''scipy'' \<longrightarrow> jacobian_value E s z y x th = Inr G)
           \<and> (opt s = ''torch'' \<longrightarrow> self_y s = Some y \<and>
                 (\<exists>t. self_theta s = Some t \<and> jacobian_value E s z y x t = Inr G))"
  using assms unfolding jacobian_moment_cond_def jacobian_value_def
  by (auto split: option.splits sum.splits if_splits)

text \<open>
  C4. When \<^verbatim>\<open>fit\<close> returns with standard errors, and the minimiser has evaluated the
  objective at least once, then \<open>self.Gamma\<close> is the Jacobian \<open>G\<close> that
  \<^verbatim>\<open>jacobian_moment_cond\<close> computes at the fitted \<open>theta\<close>, \<open>self.v\<theta>\<close> is
  \<open>V = inv((G\<^sup>T W) G)\<close>, the standard errors are \<open>sqrt(n * diag V)\<close> with \<open>n\<close> the number of
  rows of \<open>x\<close>, and \<open>W\<close> is the weighting matrix that the last objective evaluation of the
  minimiser stored.
\<close>

theorem fit_covariance_formula:
  assumes fit: "fit E rand z y x verbose fit_method s = Returned u s'"
    and ok: "self_std_errors s' \<noteq> SENone"
    and evs: "evaluations (chosen_minimizer E rand x verbose fit_method s) E (stage z y x s) \<noteq> []"
  shows "\<exists>th G Wm GW A V beta s0 v s1.
           self_theta s' = Some th
         \<and> jacobian_value E s z y x th = Inr G \<and> self_Gamma s' = Some G
         \<and> weight_array (self_W s') = Inr Wm
         \<and> matmul (T_mat G) Wm = Inr GW \<and> matmul GW G = Inr A
         \<and> np_linalg_inv E A = Inr V \<and> self_vtheta s' = Some V
         \<and> self_std_errors s' = SEVal (sqrt_scaled (nrows x) (diag V))
         \<and> last (evaluations (chosen_minimizer E rand x verbose fit_method s) E (stage z y x s))
             = (beta, s0)
         \<and> gmm_objective E beta s0 = Returned v s1
         \<and> weight_array (self_W s1) = Inr Wm"
proof -
  from fit obtain res sm where
    min: "minimize E rand z y x verbose fit_method s = Returned res sm"
    and s': "s' = standard_errors E (sm\<lparr>self_theta := Some res\<rparr>)"
    unfolding fit_def by (auto split: result.splits)
  from minimize_chosen[OF min] obtain sr where
    backend: "opt s = ''scipy'' \<or> opt s = ''torch''"
    and run: "run_minimizer (chosen_minimizer E rand x verbose fit_method s) E (stage z y x s)
                = Returned res sr"
    and W: "weight_array (self_W sm) = weight_array (self_W sr)"
    and sm: "opt s = ''scipy'' \<longrightarrow> sm = sr"
      "opt s = ''torch'' \<longrightarrow> (\<exists>d Wm. self_W sr = WTorch d Wm \<and> sm = sr\<lparr>self_W := WNumpy Wm\<rparr>)"
    by blast
  from run_minimizer_last[OF run evs] obtain v where
    last: "gmm_objective E
             (fst (last (evaluations (chosen_minimizer E rand x verbose fit_method s) E (stage z y x s))))
             (snd (last (evaluations (chosen_minimizer E rand x verbose fit_method s) E (stage z y x s))))
           = Returned v sr" ..
  from run_minimizer_Returned_frame[OF run]
  have sr: "sr = (stage z y x s)\<lparr>self_W := self_W sr\<rparr>" .
  let ?t = "sm\<lparr>self_theta := Some res\<rparr>"
  have "self_z sr = Some z \<and> self_y sr = Some y \<and> self_x sr = Some x
      \<and> self_n sr = Some (nrows x) \<and> opt sr = opt s \<and> moment_cond sr = moment_cond s"
    by (subst sr, simp add: stage_def)+
  with backend sm have staged: "self_z ?t = Some z" "self_y ?t = Some y" "self_x ?t = Some x"
    "self_n ?t = Some (nrows x)" "opt ?t = opt s" "moment_cond ?t = moment_cond s"
    "self_theta ?t = Some res" "self_W ?t = self_W sm"
    by auto
  from s' ok obtain uu where cov: "covariance E ?t = Returned uu s'"
    unfolding standard_errors_def by (auto split: result.splits)
  from covariance_Returned[OF cov] obtain G Wm GW A V n where
    jac: "jacobian_moment_cond E ?t = Returned G (?t\<lparr>self_jac_est := Some G\<rparr>)"
    and Wm: "weight_array (self_W ?t) = Inr Wm"
    and prods: "matmul (T_mat G) Wm = Inr GW" "matmul GW G = Inr A" "np_linalg_inv E A = Inr V"
    and n: "self_n ?t = Some n"
    and s'eq: "s' = ?t\<lparr>self_jac_est := Some G, self_Gamma := Some G, self_vtheta := Some V,
                  self_std_errors := SEVal (sqrt_scaled n (diag V))\<rparr>"
    by blast
  from jacobian_moment_cond_value[OF jac, of res] staged backend
  have jv: "jacobian_value E s z y x res = Inr G"
    by (auto simp: jacobian_value_def)
  from n staged have n': "n = nrows x" by simp
  have "self_theta s' = Some res" "self_Gamma s' = Some G" "self_vtheta s' = Some V"
    "self_std_errors s' = SEVal (sqrt_scaled (nrows x) (diag V))"
    "weight_array (self_W s') = Inr Wm"
    using Wm n' by (subst s'eq, simp)+
  moreover have "weight_array (self_W sr) = Inr Wm"
    using W Wm staged by simp
  ultimately show ?thesis
    using jv prods last
    by (metis prod.collapse)
qed

theorem fit_covariance_formula_witness:
  "\<exists>s' th G Wm GW A V beta s0 v s1.
       fit small_externals (\<lambda>i. 0) (mat1 1) (vec1 1) (mat1 1) False None
           (GMMEstimator iv_moment_numpy ''identity'' ''scipy'') = Returned () s'
     \<and> self_theta s' = Some th
     \<and> jacobian_value small_externals (GMMEstimator iv_moment_numpy ''identity'' ''scipy'')
          (mat1 1) (vec1 1) (mat1 1) th = Inr G
     \<and> self_Gamma s' = Some G
     \<and> weight_array (self_W s') = Inr Wm
     \<and> matmul (T_mat G) Wm = Inr GW \<and> matmul GW G = Inr A
     \<and> np_linalg_inv small_externals A = Inr V \<and> self_vtheta s' = Some V
     \<and> self_std_errors s' = SEVal (sqrt_scaled (nrows (mat1 1)) (diag V))
     \<and> self_std_errors s' = SEVal (FVec 1 (\<lambda>i. Num 1))
     \<and> gmm_objective small_externals beta s0 = Returned v s1
     \<and> weight_array (self_W s1) = Inr Wm"
proof -
  from regular_fit obtain s' where
    f: "fit small_externals (\<lambda>i. 0) (mat1 1) (vec1 1) (mat1 1) False None
           (GMMEstimator iv_moment_numpy ''identity'' ''scipy'') = Returned () s'"
    and se: "self_std_errors s' = SEVal (FVec 1 (\<lambda>i. Num 1))"
    by blast
  from se have ok: "self_std_errors s' \<noteq> SENone" by simp
  from fit_covariance_formula[OF f ok regular_fit_evaluates] f se show ?thesis by metis
qed

text \<open>
  C6. Once the minimiser phase of \<^verbatim>\<open>fit\<close> has returned a point, a covariance
  computation that raises, with whatever error, does not make \<^verbatim>\<open>fit\<close> raise:
  \<^verbatim>\<open>fit\<close> returns, \<open>self.theta\<close> is the point returned and the standard errors are
  \<^verbatim>\<open>None\<close>.
\<close>

theorem fit_survives_covariance_failure:
  assumes "minimize E rand z y x verbose fit_method s = Returned res s1"
    and "covariance E (s1\<lparr>self_theta := Some res\<rparr>) = Raised e s2"
  shows "\<exists>s'. fit E rand z y x verbose fit_method s = Returned () s'
           \<and> self_theta s' = Some res \<and> self_std_errors s' = SENone"
  using assms covariance_Raised_frame[OF assms(2)] by (simp add: fit_def standard_errors_def)

theorem fit_survives_covariance_failure_witness:
  "\<exists>s'. fit small_externals (\<lambda>i. 0) (mat1 0) (vec1 1) (mat1 1) False None
           (GMMEstimator iv_moment_numpy ''identity'' ''scipy'') = Returned () s'
        \<and> self_theta s' = Some (Vec 1 (\<lambda>i. 0)) \<and> self_std_errors s' = SENone"
proof -
  from singular_fit obtain res s1 e s2 where
    m: "minimize small_externals (\<lambda>i. 0) (mat1 0) (vec1 1) (mat1 1) False None
          (GMMEstimator iv_moment_numpy ''identity'' ''scipy'') = Returned res s1"
    and r: "res = Vec 1 (\<lambda>i. 0)"
    and c: "covariance small_externals (s1\<lparr>self_theta := Some res\<rparr>) = Raised e s2"
    by blast
  from fit_survives_covariance_failure[OF m c] r show ?thesis by simp
qed

section \<open>The Jacobian of the linear moment condition\<close>

lemma bidx_in_range: "i < a \<Longrightarrow> bidx a i = i"
  by (auto simp: bidx_def)

lemma iv_moment_aligned:
  assumes "aligned z y x b"
  shows "\<exists>M. iv_moment_numpy z y x b = Inr M \<and> nrows M = nrows x \<and> ncols M = ncols z
           \<and> (\<forall>i<nrows x. \<forall>l. entry M i l
                 = entry z i l * (velem y i - (\<Sum>j<ncols x. entry x i j * velem b j)))"
  using assms
  by (simp add: aligned_def iv_moment_numpy_def matvec_r_def vsub_def mul_col_def
      broadcast_def bidx_in_range)

lemma aligned_set_coord: "aligned z y x b \<Longrightarrow> aligned z y x (set_coord b j t)"
  by (simp add: aligned_def set_coord_def)

lemma inner_affine:
  assumes "j < (k::nat)"
  shows "(\<Sum>j'<k. c j' * ((b(j := t)) j')) = (\<Sum>j'<k. c j' * ((b(j := 0)) j')) + c j * (t::real)"
proof -
  have "(\<Sum>j'<k. c j' * ((b(j := t)) j')) - (\<Sum>j'<k. c j' * ((b(j := 0)) j'))
        = (\<Sum>j'\<in>{..<k}. if j = j' then c j' * t else 0)"
    unfolding sum_subtractf[symmetric] by (rule sum.cong) auto
  also have "\<dots> = c j * t"
    using assms by (simp add: sum.delta')
  finally show ?thesis by simp
qed

lemma moment_entry_affine:
  assumes "aligned z y x b" and "i < nrows x" and "j < ncols x"
  shows "moment_entry iv_moment_numpy z y x (set_coord b j t) i l
         = moment_entry iv_moment_numpy z y x (set_coord b j 0) i l
           + (- (entry z i l * entry x i j)) * t"
proof -
  from iv_moment_aligned[OF aligned_set_coord[OF assms(1), of j t]] assms(2)
  have a: "moment_entry iv_moment_numpy z y x (set_coord b j t) i l
           = entry z i l * (velem y i - (\<Sum>j'<ncols x. entry x i j' * ((velem b)(j := t)) j'))"
    by (auto simp: moment_entry_def set_coord_def)
  from iv_moment_aligned[OF aligned_set_coord[OF assms(1), of j 0]] assms(2)
  have b: "moment_entry iv_moment_numpy z y x (set_coord b j 0) i l
           = entry z i l * (velem y i - (\<Sum>j'<ncols x. entry x i j' * ((velem b)(j := 0)) j'))"
    by (auto simp: moment_entry_def set_coord_def)
  show ?thesis
    unfolding a b inner_affine[OF assms(3), of "entry x i" "velem b" t]
    by (simp add: algebra_simps)
qed

lemma moment_entry_deriv:
  assumes "aligned z y x b" and "i < nrows x" and "j < ncols x"
  shows "((\<lambda>t. moment_entry iv_moment_numpy z y x (set_coord b j t) i l)
            has_real_derivative (- (entry z i l * entry x i j))) (at t0)"
proof -
  have "((\<lambda>t. moment_entry iv_moment_numpy z y x (set_coord b j 0) i l
             + (- (entry z i l * entry x i j)) * t)
            has_real_derivative (- (entry z i l * entry x i j))) (at t0)"
    by (auto intro!: derivative_eq_intros)
  then show ?thesis
    by (simp only: moment_entry_affine[OF assms, symmetric])
qed

lemma summed_moment_entries:
  assumes "aligned z y x b"
  shows "summed_moment iv_moment_numpy z y x b l
         = (\<Sum>i<nrows x. moment_entry iv_moment_numpy z y x b i l)"
  using iv_moment_aligned[OF assms]
  by (auto simp: summed_moment_def moment_entry_def)

lemma analytic_jacobian_entry:
  assumes "nrows z = nrows x"
  shows "\<exists>G. matmul (neg_mat (T_mat z)) x = Inr G \<and> nrows G = ncols z \<and> ncols G = ncols x
           \<and> (\<forall>l j. entry G l j = (\<Sum>i<nrows x. - (entry z i l * entry x i j)))"
  using assms by (simp add: matmul_def neg_mat_def T_mat_def)

lemma summed_moment_deriv:
  assumes "aligned z y x b" and "j < ncols x"
  shows "((\<lambda>t. summed_moment iv_moment_numpy z y x (set_coord b j t) l)
            has_real_derivative (\<Sum>i<nrows x. - (entry z i l * entry x i j))) (at t0)"
proof -
  have "((\<lambda>t. \<Sum>i<nrows x. moment_entry iv_moment_numpy z y x (set_coord b j t) i l)
            has_real_derivative (\<Sum>i<nrows x. - (entry z i l * entry x i j))) (at t0)"
    by (rule DERIV_sum) (simp add: moment_entry_deriv[OF assms(1) _ assms(2)])
  then show ?thesis
    by (simp add: summed_moment_entries[OF aligned_set_coord[OF assms(1)]])
qed

lemma iv_moment_pytorch_numpy: "iv_moment_pytorch = iv_moment_numpy"
  by (simp add: fun_eq_iff iv_moment_pytorch_def iv_moment_numpy_def)

lemma iv_jacfwd_is_jacobian:
  assumes "aligned z y x th"
  shows "\<exists>J. iv_jacfwd mc z y x th = Inr J \<and> is_jacobian_of iv_moment_pytorch z y x th J"
proof -
  from iv_moment_aligned[OF assms] obtain M where
    M: "iv_moment_numpy z y x th = Inr M" "nrows M = nrows x" "ncols M = ncols z"
    by blast
  have "is_jacobian_of iv_moment_numpy z y x th
          (Tensor3 (nrows z) (ncols z) (ncols x) (\<lambda>i l j. - (entry z i l * entry x i j)))"
    unfolding is_jacobian_of_def
    using M assms moment_entry_deriv[OF assms]
    by (auto simp: aligned_def)
  then show ?thesis
    by (simp add: iv_jacfwd_def iv_moment_pytorch_numpy)
qed

text \<open>
  C5. For the linear instrumental-variables moment condition on aligned data, the matrix
  \<open>(-z\<^sup>T) x\<close> of the analytic branch exists, is L x k, and its entry \<open>(l, j)\<close> is the
  derivative, in coordinate \<open>j\<close> of \<open>beta\<close> and at \<open>beta\<close>, of column \<open>l\<close> of the moment
  matrix summed over the observations. Hence any array that is the Jacobian of the moment
  condition at \<open>beta\<close>, summed over its first axis as the automatic-differentiation branch
  does, has the same shape and the same entries.
\<close>

theorem analytic_jacobian_is_jacobian:
  assumes "aligned z y x beta"
  shows "\<exists>G. matmul (neg_mat (T_mat z)) x = Inr G \<and> nrows G = ncols z \<and> ncols G = ncols x
     \<and> (\<forall>l<ncols z. \<forall>j<ncols x.
           ((\<lambda>t. summed_moment iv_moment_numpy z y x (set_coord beta j t) l)
              has_real_derivative entry G l j) (at (velem beta j)))
     \<and> (\<forall>J. is_jacobian_of iv_moment_pytorch z y x beta J \<longrightarrow>
           nrows (sum_axis0 J) = nrows G \<and> ncols (sum_axis0 J) = ncols G
           \<and> (\<forall>l<ncols z. \<forall>j<ncols x. entry (sum_axis0 J) l j = entry G l j))"
proof -
  from assms have rows: "nrows z = nrows x" by (simp add: aligned_def)
  from analytic_jacobian_entry[OF rows] obtain G where
    G: "matmul (neg_mat (T_mat z)) x = Inr G" "nrows G = ncols z" "ncols G = ncols x"
    and entries: "\<And>l j. entry G l j = (\<Sum>i<nrows x. - (entry z i l * entry x i j))"
    by blast
  have summed: "\<forall>l<ncols z. \<forall>j<ncols x.
           ((\<lambda>t. summed_moment iv_moment_numpy z y x (set_coord beta j t) l)
              has_real_derivative entry G l j) (at (velem beta j))"
    using summed_moment_deriv[OF assms] by (simp add: entries)
  have ad: "nrows (sum_axis0 J) = nrows G \<and> ncols (sum_axis0 J) = ncols G
           \<and> (\<forall>l<ncols z. \<forall>j<ncols x. entry (sum_axis0 J) l j = entry G l j)"
    if J: "is_jacobian_of iv_moment_pytorch z y x beta J" for J
  proof -
    from iv_moment_aligned[OF assms] obtain M where
      M: "iv_moment_numpy z y x beta = Inr M" "nrows M = nrows x" "ncols M = ncols z"
      by blast
    from J M have dims: "dim0 J = nrows x" "dim1 J = ncols z" "dim2 J = vlen beta"
      and der: "\<And>i l j. i < nrows x \<Longrightarrow> l < ncols z \<Longrightarrow> j < vlen beta \<Longrightarrow>
             ((\<lambda>t. moment_entry iv_moment_numpy z y x (set_coord beta j t) i l)
                has_real_derivative tentry J i l j) (at (velem beta j))"
      by (auto simp: is_jacobian_of_def iv_moment_pytorch_numpy)
    from assms have k: "vlen beta = ncols x" by (simp add: aligned_def)
    have "tentry J i l j = - (entry z i l * entry x i j)"
      if "i < nrows x" "l < ncols z" "j < ncols x" for i l j
      using der[of i l j] moment_entry_deriv[OF assms that(1) that(3), of l "velem beta j"] that k
      by (auto dest: DERIV_unique)
    then have "entry (sum_axis0 J) l j = entry G l j" if "l < ncols z" "j < ncols x" for l j
      using that by (simp add: sum_axis0_def dims entries)
    with dims G k show ?thesis by (simp add: sum_axis0_def)
  qed
  show ?thesis
    apply (rule exI[of _ G])
    using G summed ad by simp
qed

theorem analytic_jacobian_is_jacobian_witness:
  "\<exists>G J. matmul (neg_mat (T_mat (mat1 2))) (mat1 3) = Inr G
     \<and> entry G 0 0 = - 6
     \<and> ((\<lambda>t. summed_moment iv_moment_numpy (mat1 2) (vec1 1) (mat1 3) (set_coord (vec1 0) 0 t) 0)
              has_real_derivative entry G 0 0) (at (velem (vec1 0) 0))
     \<and> iv_jacfwd iv_moment_pytorch (mat1 2) (vec1 1) (mat1 3) (vec1 0) = Inr J
     \<and> entry (sum_axis0 J) 0 0 = entry G 0 0"
proof -
  have al: "aligned (mat1 2) (vec1 1) (mat1 3) (vec1 0)"
    by (simp add: aligned_def mat1_def vec1_def)
  from iv_jacfwd_is_jacobian[OF al, of iv_moment_pytorch] obtain J where
    J: "iv_jacfwd iv_moment_pytorch (mat1 2) (vec1 1) (mat1 3) (vec1 0) = Inr J"
      "is_jacobian_of iv_moment_pytorch (mat1 2) (vec1 1) (mat1 3) (vec1 0) J"
    by blast
  from analytic_jacobian_is_jacobian[OF al] obtain G where
    G: "matmul (neg_mat (T_mat (mat1 2))) (mat1 3) = Inr G"
    and d: "\<forall>l<ncols (mat1 2). \<forall>j<ncols (mat1 3).
           ((\<lambda>t. summed_moment iv_moment_numpy (mat1 2) (vec1 1) (mat1 3) (set_coord (vec1 0) j t) l)
              has_real_derivative entry G l j) (at (velem (vec1 0) j))"
    and a: "\<forall>J. is_jacobian_of iv_moment_pytorch (mat1 2) (vec1 1) (mat1 3) (vec1 0) J \<longrightarrow>
           nrows (sum_axis0 J) = nrows G \<and> ncols (sum_axis0 J) = ncols G
           \<and> (\<forall>l<ncols (mat1 2). \<forall>j<ncols (mat1 3). entry (sum_axis0 J) l j = entry G l j)"
    by blast
  from G have "entry G 0 0 = - 6"
    by (auto simp: matmul_def neg_mat_def T_mat_def mat1_def)
  moreover from d have "((\<lambda>t. summed_moment iv_moment_numpy (mat1 2) (vec1 1) (mat1 3)
                                (set_coord (vec1 0) 0 t) 0)
              has_real_derivative entry G 0 0) (at (velem (vec1 0) 0))"
    by (simp add: mat1_def)
  moreover from a J(2) have "entry (sum_axis0 J) 0 0 = entry G 0 0"
    by (simp add: mat1_def)
  ultimately show ?thesis using G J(1) by blast
qed

section \<open>A second call of \<^verbatim>\<open>fit\<close>\<close>

lemma optimal_weighting_matrix_same:
  "same_data s t \<Longrightarrow> optimal_weighting_matrix E t M = optimal_weighting_matrix E s M"
  by (simp add: optimal_weighting_matrix_def same_data_def same_estimator_def)

lemma assign_W_same:
  assumes "same_data s t" and "supported s"
  shows "assign_W E M t =
           (case assign_W E M s of
              Returned u s1 \<Rightarrow> Returned u (t\<lparr>self_W := self_W s1\<rparr>)
            | Raised e s1 \<Rightarrow> Raised e t)"
proof -
  from assms(1) have eqs: "weighting_matrix t = weighting_matrix s" "opt t = opt s"
    by (simp_all add: same_data_def same_estimator_def)
  show ?thesis
  proof (cases "weighting_matrix s = ''optimal''")
    case True
    then show ?thesis
      by (cases "optimal_weighting_matrix E s M")
        (simp_all add: assign_W_def eqs optimal_weighting_matrix_same[OF assms(1)])
  next
    case False
    with assms(2) show ?thesis
      by (auto simp: assign_W_def eqs supported_def)
  qed
qed

lemma assign_W_same_Returned:
  assumes "same_data s t" and "supported s" and "assign_W E M s = Returned u s1"
  shows "assign_W E M t = Returned u (t\<lparr>self_W := self_W s1\<rparr>)"
  using assign_W_same[OF assms(1,2), of E M] assms(3) by simp

lemma assign_W_same_Raised:
  assumes "same_data s t" and "supported s" and "assign_W E M s = Raised e s1"
  shows "assign_W E M t = Raised e t"
  using assign_W_same[OF assms(1,2), of E M] assms(3) by simp

lemma quadratic_form_same_Returned:
  assumes "opt t = opt s" and "self_W t = self_W s" and "quadratic_form s m = Returned v s1"
  shows "quadratic_form t m = Returned v t"
  using assms unfolding quadratic_form_def
  by (auto split: sum.splits if_splits)

lemma quadratic_form_same_Raised:
  assumes "opt t = opt s" and "self_W t = self_W s" and "quadratic_form s m = Raised e s1"
  shows "quadratic_form t m = Raised e t"
  using assms unfolding quadratic_form_def
  by (auto split: sum.splits if_splits)

lemma same_data_update_W:
  "same_data s t \<Longrightarrow> same_data (s\<lparr>self_W := w\<rparr>) (t\<lparr>self_W := w'\<rparr>)"
  by (simp add: same_data_def same_estimator_def)

lemma supported_update_W: "supported (s\<lparr>self_W := w\<rparr>) = supported s"
  by (simp add: supported_def)

lemma gmm_objective_same_Returned:
  assumes sd: "same_data s t" and sp: "supported s"
    and r: "gmm_objective E beta s = Returned v s1"
  shows "gmm_objective E beta t = Returned v (t\<lparr>self_W := self_W s1\<rparr>)"
proof -
  from r obtain z y x M u s0 where
    z: "self_z s = Some z" and y: "self_y s = Some y" and x: "self_x s = Some x"
    and M: "moment_cond s z y x beta = Inr M"
    and a: "assign_W E M s = Returned u s0"
    and q: "quadratic_form s0 (mean_axis0 M) = Returned v s1"
    unfolding gmm_objective_def
    by (auto split: option.splits sum.splits result.splits)
  from assign_W_same_Returned[OF sd sp a]
  have at: "assign_W E M t = Returned u (t\<lparr>self_W := self_W s0\<rparr>)" .
  from assign_W_Returned[OF a] have s0: "s0 = s\<lparr>self_W := self_W s0\<rparr>" .
  have "opt s0 = opt s" by (subst s0) simp
  with sd have o: "opt (t\<lparr>self_W := self_W s0\<rparr>) = opt s0"
    by (simp add: same_data_def same_estimator_def)
  have w: "self_W (t\<lparr>self_W := self_W s0\<rparr>) = self_W s0" by simp
  from quadratic_form_same_Returned[OF o w q]
  have qt: "quadratic_form (t\<lparr>self_W := self_W s0\<rparr>) (mean_axis0 M)
              = Returned v (t\<lparr>self_W := self_W s0\<rparr>)" .
  from quadratic_form_state(1)[OF q] have s1: "s1 = s0" .
  from sd z y x M at qt s1 show ?thesis
    by (simp add: gmm_objective_def same_data_def same_estimator_def)
qed

lemma gmm_objective_same_Raised:
  assumes sd: "same_data s t" and sp: "supported s"
    and r: "gmm_objective E beta s = Raised e s1"
  shows "\<exists>t1. gmm_objective E beta t = Raised e t1"
proof -
  from sd have eqs: "self_z t = self_z s" "self_y t = self_y s" "self_x t = self_x s"
    "moment_cond t = moment_cond s"
    by (simp_all add: same_data_def same_estimator_def)
  show ?thesis
  proof (cases "self_z s")
    case None
    with r eqs show ?thesis by (simp add: gmm_objective_def)
  next
    case z: (Some z)
    show ?thesis
    proof (cases "self_y s")
      case None
      with r eqs z show ?thesis by (simp add: gmm_objective_def)
    next
      case y: (Some y)
      show ?thesis
      proof (cases "self_x s")
        case None
        with r eqs z y show ?thesis by (simp add: gmm_objective_def)
      next
        case x: (Some x)
        show ?thesis
        proof (cases "moment_cond s z y x beta")
          case (Inl e0)
          with r eqs z y x show ?thesis by (simp add: gmm_objective_def)
        next
          case M: (Inr M)
          show ?thesis
          proof (cases "assign_W E M s")
            case (Raised e0 s0)
            with r z y x M have "e0 = e" by (simp add: gmm_objective_def)
            with assign_W_same_Raised[OF sd sp Raised]
            have "assign_W E M t = Raised e t" by simp
            with eqs z y x M show ?thesis by (simp add: gmm_objective_def)
          next
            case (Returned u s0)
            with r z y x M have q: "quadratic_form s0 (mean_axis0 M) = Raised e s1"
              by (simp add: gmm_objective_def)
            from assign_W_same_Returned[OF sd sp Returned]
            have at: "assign_W E M t = Returned u (t\<lparr>self_W := self_W s0\<rparr>)" .
            from assign_W_Returned[OF Returned] have s0: "s0 = s\<lparr>self_W := self_W s0\<rparr>" .
            have "opt s0 = opt s" by (subst s0) simp
            with sd have o: "opt (t\<lparr>self_W := self_W s0\<rparr>) = opt s0"
              by (simp add: same_data_def same_estimator_def)
            have w: "self_W (t\<lparr>self_W := self_W s0\<rparr>) = self_W s0" by simp
            from quadratic_form_same_Raised[OF o w q]
            have "quadratic_form (t\<lparr>self_W := self_W s0\<rparr>) (mean_axis0 M)
                    = Raised e (t\<lparr>self_W := self_W s0\<rparr>)" .
            with eqs z y x M at show ?thesis by (simp add: gmm_objective_def)
          qed
        qed
      qed
    qed
  qed
qed

lemma run_minimizer_same:
  assumes "same_data s t" and "supported s"
    and "self_W t = self_W s \<or> (\<exists>b c. m = Query b c)"
  shows "(\<forall>res s1. run_minimizer m E s = Returned res s1 \<longrightarrow>
            run_minimizer m E t = Returned res (t\<lparr>self_W := self_W s1\<rparr>))
       \<and> (\<forall>e s1. run_minimizer m E s = Raised e s1 \<longrightarrow>
            (\<exists>t1. run_minimizer m E t = Raised e t1))"
  using assms
proof (induction m arbitrary: s t)
  case (Return r)
  then have "t\<lparr>self_W := self_W s\<rparr> = t" by auto
  then show ?case by simp
next
  case (Fail e0)
  then show ?case by simp
next
  case (Query beta cont)
  show ?case
  proof (cases "gmm_objective E beta s")
    case (Raised e0 s0)
    from gmm_objective_same_Raised[OF Query.prems(1,2) Raised] obtain t1 where
      "gmm_objective E beta t = Raised e0 t1" ..
    then show ?thesis by (simp add: Raised)
  next
    case (Returned v s0)
    from gmm_objective_same_Returned[OF Query.prems(1,2) Returned]
    have t: "gmm_objective E beta t = Returned v (t\<lparr>self_W := self_W s0\<rparr>)" .
    from gmm_objective_Returned_frame[OF Returned]
    have s0: "s0 = s\<lparr>self_W := self_W s0\<rparr>" .
    have sd: "same_data s0 (t\<lparr>self_W := self_W s0\<rparr>)"
      by (subst s0) (rule same_data_update_W[OF Query.prems(1)])
    have sp: "supported s0"
      by (subst s0) (simp add: supported_update_W Query.prems(2))
    have w: "self_W (t\<lparr>self_W := self_W s0\<rparr>) = self_W s0 \<or> (\<exists>b c. cont v = Query b c)"
      by simp
    have "cont v \<in> range cont" by simp
    from Query.IH[OF this sd sp w]
    have ih: "(\<forall>res s1. run_minimizer (cont v) E s0 = Returned res s1 \<longrightarrow>
            run_minimizer (cont v) E (t\<lparr>self_W := self_W s0\<rparr>)
              = Returned res (t\<lparr>self_W := self_W s0\<rparr>\<lparr>self_W := self_W s1\<rparr>))
       \<and> (\<forall>e s1. run_minimizer (cont v) E s0 = Raised e s1 \<longrightarrow>
            (\<exists>t1. run_minimizer (cont v) E (t\<lparr>self_W := self_W s0\<rparr>) = Raised e t1))" .
    have "run_minimizer (Query beta cont) E s = run_minimizer (cont v) E s0"
      by (simp add: Returned)
    moreover have "run_minimizer (Query beta cont) E t
                   = run_minimizer (cont v) E (t\<lparr>self_W := self_W s0\<rparr>)"
      by (simp add: t)
    moreover have "t\<lparr>self_W := self_W s0\<rparr>\<lparr>self_W := w\<rparr> = t\<lparr>self_W := w\<rparr>" for w
      by simp
    ultimately show ?thesis
      using ih by (simp only:)
  qed
qed

lemma stage_same: "same_estimator s t \<Longrightarrow> same_data (stage z y x s) (stage z y x t)"
  by (simp add: same_data_def same_estimator_def stage_def)

lemma chosen_minimizer_same:
  "same_estimator s t \<Longrightarrow>
   chosen_minimizer E rand x verbose fit_method t = chosen_minimizer E rand x verbose fit_method s"
  by (simp add: chosen_minimizer_def default_fit_method_def same_estimator_def)

lemma minimize_run:
  "minimize E rand z y x verbose fit_method s =
     (if opt s = ''scipy'' then
        run_minimizer (chosen_minimizer E rand x verbose fit_method s) E (stage z y x s)
      else if opt s = ''torch'' then
        (case run_minimizer (chosen_minimizer E rand x verbose fit_method s) E (stage z y x s) of
           Raised e s1 \<Rightarrow> Raised e s1
         | Returned res s1 \<Rightarrow>
             (case detach_numpy s1 of
                Raised e s2 \<Rightarrow> Raised e s2
              | Returned u s2 \<Rightarrow> Returned res s2))
      else Raised UnboundLocalError s)"
  by (simp add: minimize_def chosen_minimizer_def)

lemma minimize_same:
  assumes se: "same_estimator s t"
    and q: "chosen_minimizer E rand x verbose fit_method s = Query b c"
    and m: "minimize E rand z y x verbose fit_method s = Returned res s1"
  shows "minimize E rand z y x verbose fit_method t
           = Returned res ((stage z y x t)\<lparr>self_W := self_W s1\<rparr>)
         \<and> s1 = (stage z y x s)\<lparr>self_W := self_W s1\<rparr> \<and> supported s"
proof -
  let ?m = "chosen_minimizer E rand x verbose fit_method s"
  from se have o: "opt t = opt s" by (simp add: same_estimator_def)
  from m have sp: "supported s"
    by (auto simp: minimize_run supported_def split: if_splits)
  then have sps: "supported (stage z y x s)" by (simp add: supported_def stage_def)
  from q have w: "self_W (stage z y x t) = self_W (stage z y x s) \<or> (\<exists>b c. ?m = Query b c)"
    by simp
  note rs = run_minimizer_same[OF stage_same[OF se] sps w, of E]
  show ?thesis
  proof (cases "opt s = ''scipy''")
    case True
    with m have r: "run_minimizer ?m E (stage z y x s) = Returned res s1"
      by (simp add: minimize_run)
    with rs have "run_minimizer ?m E (stage z y x t)
                    = Returned res ((stage z y x t)\<lparr>self_W := self_W s1\<rparr>)" by blast
    with True o run_minimizer_Returned_frame[OF r] sp show ?thesis
      by (simp add: minimize_run chosen_minimizer_same[OF se])
  next
    case False
    with sp have torch: "opt s = ''torch''" by (simp add: supported_def)
    with False m obtain s0 u where
      r: "run_minimizer ?m E (stage z y x s) = Returned res s0"
      and d: "detach_numpy s0 = Returned u s1"
      by (auto simp: minimize_run split: result.splits)
    from d obtain dt Wm where
      Wm: "self_W s0 = WTorch dt Wm" and s1: "s1 = s0\<lparr>self_W := WNumpy Wm\<rparr>"
      by (auto simp: detach_numpy_def split: weight.splits)
    from rs r have rt: "run_minimizer ?m E (stage z y x t)
                    = Returned res ((stage z y x t)\<lparr>self_W := self_W s0\<rparr>)" by blast
    have dt: "detach_numpy ((stage z y x t)\<lparr>self_W := self_W s0\<rparr>)
                = Returned () ((stage z y x t)\<lparr>self_W := WNumpy Wm\<rparr>)"
      by (simp add: detach_numpy_def Wm)
    have "s1 = (stage z y x s)\<lparr>self_W := self_W s1\<rparr>"
      by (subst (1 2) s1, subst run_minimizer_Returned_frame[OF r]) simp
    moreover have "self_W s1 = WNumpy Wm" by (simp add: s1)
    ultimately show ?thesis
      using False torch o rt dt sp
      by (simp add: minimize_run chosen_minimizer_same[OF se])
  qed
qed

lemma standard_errors_cases:
  "standard_errors E s =
     (case jacobian_moment_cond E s of
        Raised e s1 \<Rightarrow> s\<lparr>self_std_errors := SENone\<rparr>
      | Returned G s1 \<Rightarrow>
          (case sandwich_inverse E G (self_W s) of
             Inl e \<Rightarrow> s\<lparr>self_jac_est := Some G, self_Gamma := Some G, self_std_errors := SENone\<rparr>
           | Inr V \<Rightarrow>
               (case self_n s of
                  None \<Rightarrow> s\<lparr>self_jac_est := Some G, self_Gamma := Some G,
                             self_vtheta := Some V, self_std_errors := SENone\<rparr>
                | Some n \<Rightarrow> s\<lparr>self_jac_est := Some G, self_Gamma := Some G,
                               self_vtheta := Some V,
                               self_std_errors := SEVal (sqrt_scaled n (diag V))\<rparr>)))"
proof (cases "jacobian_moment_cond E s")
  case (Raised e s1)
  with jacobian_moment_cond_frame(2)[OF Raised] show ?thesis
    by (simp add: standard_errors_def covariance_def)
next
  case (Returned G s1)
  from jacobian_moment_cond_frame(1)[OF Returned] have s1: "s1 = s\<lparr>self_jac_est := Some G\<rparr>" .
  show ?thesis
    unfolding standard_errors_def covariance_def Returned s1 sandwich_inverse_def Let_def
    by (simp split: sum.splits option.splits)
qed

lemma jacobian_same:
  assumes "same_data s t" and "supported s" and "self_theta t = self_theta s"
  shows "jacobian_moment_cond E t =
           (case jacobian_moment_cond E s of
              Returned G s' \<Rightarrow> Returned G (t\<lparr>self_jac_est := Some G\<rparr>)
            | Raised e s' \<Rightarrow> Raised e t)"
proof -
  from assms(1) have eqs: "self_z t = self_z s" "self_y t = self_y s" "self_x t = self_x s"
    "moment_cond t = moment_cond s" "opt t = opt s"
    by (simp_all add: same_data_def same_estimator_def)
  show ?thesis
  proof (cases "opt s = ''scipy''")
    case True
    then show ?thesis
      by (simp add: jacobian_moment_cond_def eqs split: option.splits sum.splits)
  next
    case False
    with assms(2) have "opt s = ''torch''" by (simp add: supported_def)
    then show ?thesis
      by (simp add: jacobian_moment_cond_def eqs assms(3) split: option.splits sum.splits)
  qed
qed

lemma standard_errors_same:
  assumes sd: "same_data s t" and sp: "supported s"
    and th: "self_theta t = self_theta s" and w: "self_W t = self_W s"
  shows "standard_errors E t =
           (case jacobian_moment_cond E s of
              Raised e s1 \<Rightarrow> t\<lparr>self_std_errors := SENone\<rparr>
            | Returned G s1 \<Rightarrow>
                (case sandwich_inverse E G (self_W s) of
                   Inl e \<Rightarrow> t\<lparr>self_jac_est := Some G, self_Gamma := Some G,
                               self_std_errors := SENone\<rparr>
                 | Inr V \<Rightarrow>
                     (case self_n s of
                        None \<Rightarrow> t\<lparr>self_jac_est := Some G, self_Gamma := Some G,
                                   self_vtheta := Some V, self_std_errors := SENone\<rparr>
                      | Some n \<Rightarrow> t\<lparr>self_jac_est := Some G, self_Gamma := Some G,
                                     self_vtheta := Some V,
                                     self_std_errors := SEVal (sqrt_scaled n (diag V))\<rparr>)))"
proof -
  from sd have n: "self_n t = self_n s" by (simp add: same_data_def)
  show ?thesis
    unfolding standard_errors_cases[of E t] jacobian_same[OF sd sp th] w n
    by (simp split: result.splits)
qed

lemma jacobian_moment_cond_value_cases:
  assumes "supported s" and "opt sm = opt s" and "moment_cond sm = moment_cond s"
    and "self_z sm = Some z" and "self_y sm = Some y" and "self_x sm = Some x"
    and "self_theta sm = Some th"
  shows "jacobian_moment_cond E sm =
           (case jacobian_value E s z y x th of
              Inl e \<Rightarrow> Raised e sm
            | Inr G \<Rightarrow> Returned G (sm\<lparr>self_jac_est := Some G\<rparr>))"
proof (cases "opt s = ''scipy''")
  case True
  with assms show ?thesis
    by (simp add: jacobian_moment_cond_def jacobian_value_def split: sum.splits)
next
  case False
  with assms(1) have "opt s = ''torch''" by (simp add: supported_def)
  with assms show ?thesis
    by (simp add: jacobian_moment_cond_def jacobian_value_def split: sum.splits)
qed

text \<open>
  C7, as the code has it. Let \<open>s\<close> and \<open>t\<close> be two states of the same estimator, say the
  instance after an earlier \<^verbatim>\<open>fit\<close> and the instance as built. If the minimiser asks
  for the objective at least once, then a \<^verbatim>\<open>fit\<close> that returns from \<open>s\<close> returns
  from \<open>t\<close> too, with the same \<open>theta\<close>, the same \<open>W\<close>, the same standard errors and the
  data of this call: none of them keeps anything of the state before the call. The
  Jacobian is the one of this call whenever \<^verbatim>\<open>jacobian_moment_cond\<close> can compute it, and
  \<open>Gamma\<close>, \<open>jac_est\<close> and \<open>v\<theta>\<close> are those of this call when the covariance
  computation succeeds.
\<close>

theorem fit_overwrites_fit_state:
  assumes se: "same_estimator s t"
    and q: "chosen_minimizer E rand x verbose fit_method s = Query b c"
    and f: "fit E rand z y x verbose fit_method s = Returned u s'"
  shows "\<exists>t'. fit E rand z y x verbose fit_method t = Returned u t'
     \<and> self_theta t' = self_theta s' \<and> self_W t' = self_W s'
     \<and> self_std_errors t' = self_std_errors s'
     \<and> self_z t' = Some z \<and> self_y t' = Some y \<and> self_x t' = Some x
     \<and> self_n t' = Some (nrows x) \<and> self_k t' = Some (ncols x)
     \<and> self_z s' = Some z \<and> self_y s' = Some y \<and> self_x s' = Some x
     \<and> self_n s' = Some (nrows x) \<and> self_k s' = Some (ncols x)
     \<and> (self_std_errors s' \<noteq> SENone \<longrightarrow>
           self_Gamma t' = self_Gamma s' \<and> self_jac_est t' = self_jac_est s'
           \<and> self_vtheta t' = self_vtheta s')
     \<and> (\<forall>th G. self_theta s' = Some th \<longrightarrow> jacobian_value E s z y x th = Inr G \<longrightarrow>
           self_Gamma t' = Some G \<and> self_Gamma s' = Some G)"
proof -
  from f obtain res s1 where
    m: "minimize E rand z y x verbose fit_method s = Returned res s1"
    and s': "s' = standard_errors E (s1\<lparr>self_theta := Some res\<rparr>)"
    unfolding fit_def by (auto split: result.splits)
  let ?t1 = "(stage z y x t)\<lparr>self_W := self_W s1\<rparr>"
  let ?sm = "s1\<lparr>self_theta := Some res\<rparr>"
  let ?tm = "?t1\<lparr>self_theta := Some res\<rparr>"
  from minimize_same[OF se q m] have
    mt: "minimize E rand z y x verbose fit_method t = Returned res ?t1"
    and s1: "s1 = (stage z y x s)\<lparr>self_W := self_W s1\<rparr>" and sp: "supported s"
    by simp_all
  have sm: "self_z ?sm = Some z" "self_y ?sm = Some y" "self_x ?sm = Some x"
    "self_n ?sm = Some (nrows x)" "self_k ?sm = Some (ncols x)" "opt ?sm = opt s"
    "moment_cond ?sm = moment_cond s" "self_theta ?sm = Some res" "self_W ?sm = self_W s1"
    by (subst s1, simp add: stage_def)+
  have tm: "self_z ?tm = Some z" "self_y ?tm = Some y" "self_x ?tm = Some x"
    "self_n ?tm = Some (nrows x)" "self_k ?tm = Some (ncols x)"
    "self_theta ?tm = Some res" "self_W ?tm = self_W s1"
    by (simp_all add: stage_def)
  have sd: "same_data ?sm ?tm"
    using se by (subst s1) (simp add: same_data_def same_estimator_def stage_def)
  have spm: "supported ?sm" using sp sm(6) by (simp add: supported_def)
  have th: "self_theta ?tm = self_theta ?sm" by simp
  have w: "self_W ?tm = self_W ?sm" by simp
  have ft: "fit E rand z y x verbose fit_method t = Returned u (standard_errors E ?tm)"
    by (simp add: fit_def mt)
  note jv = jacobian_moment_cond_value_cases[OF sp sm(6,7,1,2,3,8), of E]
  note es = standard_errors_cases[of E ?sm]
  note et = standard_errors_same[OF sd spm th w, of E]
  have fields:
    "self_theta (standard_errors E ?tm) = self_theta s'"
    "self_W (standard_errors E ?tm) = self_W s'"
    "self_std_errors (standard_errors E ?tm) = self_std_errors s'"
    "self_z (standard_errors E ?tm) = Some z" "self_y (standard_errors E ?tm) = Some y"
    "self_x (standard_errors E ?tm) = Some x" "self_n (standard_errors E ?tm) = Some (nrows x)"
    "self_k (standard_errors E ?tm) = Some (ncols x)"
    "self_z s' = Some z" "self_y s' = Some y"
    "self_x s' = Some x" "self_n s' = Some (nrows x)"
    "self_k s' = Some (ncols x)"
    unfolding s' es et using sm tm
    by (simp_all split: result.splits sum.splits option.splits)
  have ok: "self_std_errors s' \<noteq> SENone \<longrightarrow>
           self_Gamma (standard_errors E ?tm) = self_Gamma s'
           \<and> self_jac_est (standard_errors E ?tm) = self_jac_est s'
           \<and> self_vtheta (standard_errors E ?tm) = self_vtheta s'"
    unfolding s' es et
    by (simp split: result.splits sum.splits option.splits)
  have s'th: "self_theta s' = Some res"
    unfolding s' es using sm(8)
    by (simp split: result.splits sum.splits option.splits)
  have gam: "self_Gamma (standard_errors E ?tm) = Some G \<and> self_Gamma s' = Some G"
    if "jacobian_value E s z y x res = Inr G" for G
    unfolding s' es et jv that
    by (simp split: result.splits sum.splits option.splits)
  show ?thesis
    apply (rule exI[of _ "standard_errors E ?tm"])
    using ft fields ok gam s'th by simp
qed

theorem fit_overwrites_fit_state_witness:
  "\<exists>s1 s2 t'.
      fit small_externals (\<lambda>i. 0) (mat1 1) (vec1 1) (mat1 1) False None fresh_scipy
        = Returned () s1
    \<and> fit small_externals (\<lambda>i. 0) (mat1 0) (vec1 1) (mat1 1) False None s1 = Returned () s2
    \<and> fit small_externals (\<lambda>i. 0) (mat1 0) (vec1 1) (mat1 1) False None fresh_scipy
        = Returned () t'
    \<and> self_theta t' = self_theta s2 \<and> self_W t' = self_W s2
    \<and> self_std_errors t' = self_std_errors s2
    \<and> self_std_errors s2 = SENone"
proof -
  from two_fits obtain s1 s2 where
    f1: "fit small_externals (\<lambda>i. 0) (mat1 1) (vec1 1) (mat1 1) False None fresh_scipy
           = Returned () s1"
    and f2: "fit small_externals (\<lambda>i. 0) (mat1 0) (vec1 1) (mat1 1) False None s1
           = Returned () s2"
    and se: "same_estimator s1 fresh_scipy" and o: "opt s1 = ''scipy''"
    and n: "self_std_errors s2 = SENone"
    by blast
  have q: "chosen_minimizer small_externals (\<lambda>i. 0) (mat1 1) False None s1
             = Query (Vec (ncols (mat1 1)) (\<lambda>i. 0)) (\<lambda>v. Return (Vec (ncols (mat1 1)) (\<lambda>i. 0)))"
    by (simp add: chosen_minimizer_def o small_externals_def one_step_def)
  from fit_overwrites_fit_state[OF se q f2] f1 f2 n show ?thesis by blast
qed

text \<open>
  What the later call leaves behind. After a first fit, a second one on a zero
  instrument fails at the inversion: \<open>self.v\<theta>\<close> is not assigned and is still the matrix
  of the first fit, while the same second fit on a new instance leaves it unset. And a
  second fit on data whose instrument has one row for two observations, which the moment
  condition broadcasts, fails at the Jacobian: \<open>self.Gamma\<close> is still the Jacobian of the
  first fit.
\<close>

theorem fit_overwrites_fit_state_counterexample:
  "returns (fit small_externals (\<lambda>i. 0) (mat1 1) (vec1 1) (mat1 1) False None fresh_scipy)
   \<and> returns (fit small_externals (\<lambda>i. 0) (mat1 0) (vec1 1) (mat1 1) False None first_fit)
   \<and> self_std_errors singular_refit = SENone
   \<and> self_vtheta singular_refit = self_vtheta first_fit
   \<and> self_vtheta first_fit = Some (Matrix 1 1 (\<lambda>i j. 1))
   \<and> self_vtheta singular_fit_alone = None
   \<and> returns (fit small_externals (\<lambda>i. 0) (mat1 1) (Vec 2 (\<lambda>i. 1)) (Matrix 2 1 (\<lambda>i j. 1))
                 False None first_fit)
   \<and> self_std_errors misaligned_refit = SENone
   \<and> self_Gamma misaligned_refit = self_Gamma first_fit
   \<and> self_Gamma first_fit = Some (Matrix 1 1 (\<lambda>i j. - 1))"
  by (simp add: returns_def singular_refit_def singular_fit_alone_def misaligned_refit_def
      first_fit_def state_of_def fresh_scipy_def small_defs)

section \<open>The sign of the standard errors\<close>

lemma sum_assoc_left:
  fixes P :: "nat \<Rightarrow> real"
  shows "(\<Sum>b<k. (\<Sum>l<L. P l * Q l b) * v b) = (\<Sum>l<L. P l * (\<Sum>b<k. Q l b * v b))"
proof -
  have "(\<Sum>b<k. (\<Sum>l<L. P l * Q l b) * v b) = (\<Sum>b<k. \<Sum>l<L. P l * (Q l b * v b))"
    by (simp add: sum_distrib_right mult.assoc)
  also have "\<dots> = (\<Sum>l<L. \<Sum>b<k. P l * (Q l b * v b))"
    by (rule sum.swap)
  also have "\<dots> = (\<Sum>l<L. P l * (\<Sum>b<k. Q l b * v b))"
    by (simp add: sum_distrib_left)
  finally show ?thesis .
qed

lemma sum_pull_left:
  fixes X :: "nat \<Rightarrow> real"
  shows "(\<Sum>b<k. p * X b * q b) = p * (\<Sum>b<k. X b * q b)"
  by (simp add: sum_distrib_left mult.assoc)

text \<open>A diagonal entry of a right inverse is a quadratic form of the matrix inverted.\<close>

lemma inverse_diagonal:
  fixes A V :: "nat \<Rightarrow> nat \<Rightarrow> real"
  assumes inv: "\<And>a j. a < k \<Longrightarrow> j < k \<Longrightarrow> (\<Sum>b<k. A a b * V b j) = (if a = j then 1 else 0)"
    and i: "i < k"
  shows "V i i = (\<Sum>a<k. \<Sum>b<k. V a i * A a b * V b i)"
proof -
  have "(\<Sum>a<k. \<Sum>b<k. V a i * A a b * V b i) = (\<Sum>a<k. V a i * (\<Sum>b<k. A a b * V b i))"
    by (simp add: sum_distrib_left mult.assoc)
  also have "\<dots> = (\<Sum>a\<in>{..<k}. if a = i then V a i else 0)"
    by (rule sum.cong) (simp_all add: inv i)
  also have "\<dots> = V i i"
    using i by (simp add: sum.delta)
  finally show ?thesis by simp
qed

text \<open>The quadratic form of \<open>(G\<^sup>T W) G\<close> at \<open>v\<close> is the one of \<open>W\<close> at \<open>G v\<close>.\<close>

lemma congruence_form:
  fixes G W :: "nat \<Rightarrow> nat \<Rightarrow> real"
  shows "(\<Sum>a<k. \<Sum>b<k. v a * (\<Sum>l<L. (\<Sum>m<L. G m a * W m l) * G l b) * v b)
         = (\<Sum>m<L. \<Sum>l<L. (\<Sum>a<k. G m a * v a) * W m l * (\<Sum>b<k. G l b * v b))"
proof -
  define g where "g l = (\<Sum>b<k. G l b * v b)" for l
  define h where "h m = (\<Sum>l<L. W m l * g l)" for m
  have Av: "(\<Sum>b<k. (\<Sum>l<L. (\<Sum>m<L. G m a * W m l) * G l b) * v b) = (\<Sum>m<L. G m a * h m)" for a
  proof -
    have "(\<Sum>b<k. (\<Sum>l<L. (\<Sum>m<L. G m a * W m l) * G l b) * v b)
          = (\<Sum>l<L. (\<Sum>m<L. G m a * W m l) * g l)"
      unfolding g_def by (rule sum_assoc_left)
    also have "\<dots> = (\<Sum>m<L. G m a * h m)"
      unfolding h_def by (rule sum_assoc_left)
    finally show ?thesis .
  qed
  have "(\<Sum>a<k. \<Sum>b<k. v a * (\<Sum>l<L. (\<Sum>m<L. G m a * W m l) * G l b) * v b)
        = (\<Sum>a<k. v a * (\<Sum>b<k. (\<Sum>l<L. (\<Sum>m<L. G m a * W m l) * G l b) * v b))"
    by (simp only: sum_pull_left)
  also have "\<dots> = (\<Sum>a<k. \<Sum>m<L. v a * (G m a * h m))"
    by (simp add: Av sum_distrib_left)
  also have "\<dots> = (\<Sum>m<L. \<Sum>a<k. v a * (G m a * h m))"
    by (rule sum.swap)
  also have "\<dots> = (\<Sum>m<L. g m * h m)"
    unfolding g_def by (rule sum.cong[OF refl]) (simp add: sum_distrib_left sum_distrib_right mult_ac)
  also have "\<dots> = (\<Sum>m<L. \<Sum>l<L. g m * W m l * g l)"
    unfolding h_def by (simp add: sum_distrib_left mult.assoc)
  finally show ?thesis unfolding g_def .
qed

text \<open>The identity and a right inverse of a scaled Gram matrix have non-negative forms.\<close>

lemma identity_form_nonneg:
  fixes w :: "nat \<Rightarrow> real"
  shows "0 \<le> (\<Sum>i<L. \<Sum>j<L. w i * (if i = j then 1 else 0) * w j)"
proof -
  have "(\<Sum>j<L. w i * (if i = j then 1 else 0) * w j) = (if i < L then w i * w i else 0)" for i
  proof -
    have "(\<Sum>j<L. w i * (if i = j then 1 else 0) * w j)
          = (\<Sum>j\<in>{..<L}. if i = j then w i * w j else 0)"
      by (rule sum.cong) simp_all
    then show ?thesis by (simp add: sum.delta')
  qed
  then show ?thesis by (simp add: sum_nonneg)
qed

lemma gram_inverse_form_nonneg:
  fixes M W :: "nat \<Rightarrow> nat \<Rightarrow> real"
  assumes c: "0 \<le> c"
    and inv: "\<And>i j. i < L \<Longrightarrow> j < L \<Longrightarrow>
               (\<Sum>l<L. (c * (\<Sum>r<n. M r i * M r l)) * W l j) = (if i = j then 1 else 0)"
  shows "0 \<le> (\<Sum>i<L. \<Sum>j<L. w i * W i j * w j)"
proof -
  define u where "u l = (\<Sum>j<L. W l j * w j)" for l
  define S where "S i l = c * (\<Sum>r<n. M r i * M r l)" for i l
  have Su: "(\<Sum>l<L. S i l * u l) = w i" if "i < L" for i
  proof -
    have "(\<Sum>l<L. S i l * u l) = (\<Sum>l<L. \<Sum>j<L. S i l * (W l j * w j))"
      unfolding u_def by (simp add: sum_distrib_left)
    also have "\<dots> = (\<Sum>j<L. \<Sum>l<L. S i l * (W l j * w j))"
      by (rule sum.swap)
    also have "\<dots> = (\<Sum>j<L. (\<Sum>l<L. S i l * W l j) * w j)"
      by (simp add: sum_distrib_right mult.assoc)
    also have "\<dots> = (\<Sum>j\<in>{..<L}. if i = j then w j else 0)"
      by (rule sum.cong) (simp_all add: S_def inv that)
    also have "\<dots> = w i"
      using that by (simp add: sum.delta')
    finally show ?thesis .
  qed
  have "(\<Sum>i<L. \<Sum>j<L. w i * W i j * w j) = (\<Sum>i<L. w i * u i)"
    unfolding u_def by (simp add: sum_distrib_left mult.assoc)
  also have "\<dots> = (\<Sum>i<L. (\<Sum>l<L. S i l * u l) * u i)"
    by (rule sum.cong) (simp_all add: Su)
  also have "\<dots> = (\<Sum>i<L. \<Sum>l<L. c * (\<Sum>r<n. (M r i * u i) * (M r l * u l)))"
    unfolding S_def by (simp add: sum_distrib_left sum_distrib_right mult_ac)
  also have "\<dots> = c * (\<Sum>i<L. \<Sum>l<L. \<Sum>r<n. (M r i * u i) * (M r l * u l))"
    by (simp add: sum_distrib_left)
  also have "(\<Sum>i<L. \<Sum>l<L. \<Sum>r<n. (M r i * u i) * (M r l * u l))
             = (\<Sum>r<n. (\<Sum>i<L. M r i * u i) * (\<Sum>l<L. M r l * u l))"
  proof -
    have "(\<Sum>i<L. \<Sum>l<L. \<Sum>r<n. (M r i * u i) * (M r l * u l))
          = (\<Sum>i<L. \<Sum>r<n. \<Sum>l<L. (M r i * u i) * (M r l * u l))"
      by (rule sum.cong[OF refl]) (rule sum.swap)
    also have "\<dots> = (\<Sum>r<n. \<Sum>i<L. \<Sum>l<L. (M r i * u i) * (M r l * u l))"
      by (rule sum.swap)
    also have "\<dots> = (\<Sum>r<n. (\<Sum>i<L. M r i * u i) * (\<Sum>l<L. M r l * u l))"
      by (simp add: sum_product)
    finally show ?thesis .
  qed
  finally have eq: "(\<Sum>i<L. \<Sum>j<L. w i * W i j * w j)
                    = c * (\<Sum>r<n. (\<Sum>i<L. M r i * u i) * (\<Sum>l<L. M r l * u l))" .
  have "0 \<le> (\<Sum>i<L. M r i * u i) * (\<Sum>l<L. M r l * u l)" for r
    by (rule zero_le_square)
  then have "0 \<le> c * (\<Sum>r<n. (\<Sum>i<L. M r i * u i) * (\<Sum>l<L. M r l * u l))"
    by (intro mult_nonneg_nonneg[OF c] sum_nonneg)
  with eq show ?thesis by simp
qed

lemma nonneg_form_eye: "nonneg_form (eye L)"
  by (simp add: nonneg_form_def eye_def identity_form_nonneg)

lemma nonneg_form_gram_inverse:
  assumes ri: "right_inverse finv" and n: "0 < n"
    and G: "matmul (T_mat M) M = Inr G"
    and W: "finv (scalar_mul (1 / real n) G) = Inr Wm"
  shows "nonneg_form Wm"
proof -
  let ?L = "ncols M"
  let ?S = "scalar_mul (1 / real n) G"
  from G have Gent: "nrows G = ?L" "ncols G = ?L"
    "\<And>i j. entry G i j = (\<Sum>r<nrows M. entry M r i * entry M r j)"
    by (auto simp: matmul_def T_mat_def)
  then have S: "nrows ?S = ?L" "ncols ?S = ?L"
    "\<And>i j. entry ?S i j = (1 / real n) * (\<Sum>r<nrows M. entry M r i * entry M r j)"
    by (simp_all add: scalar_mul_def)
  from ri W have "nrows Wm = nrows ?S \<and> ncols Wm = nrows ?S
        \<and> (\<forall>i<nrows ?S. \<forall>j<nrows ?S.
              (\<Sum>l<nrows ?S. entry ?S i l * entry Wm l j) = (if i = j then 1 else 0))"
    unfolding right_inverse_def by blast
  then have dims: "nrows Wm = ?L" "ncols Wm = ?L"
    and inv: "\<And>i j. i < ?L \<Longrightarrow> j < ?L \<Longrightarrow>
             (\<Sum>l<?L. ((1 / real n) * (\<Sum>r<nrows M. entry M r i * entry M r l)) * entry Wm l j)
               = (if i = j then 1 else 0)"
    by (simp_all add: S)
  have c: "0 \<le> 1 / real n" by simp
  have "0 \<le> (\<Sum>i<?L. \<Sum>j<?L. w i * entry Wm i j * w j)" for w
    by (rule gram_inverse_form_nonneg[where c = "1 / real n" and M = "entry M"
          and n = "nrows M", OF c]) (rule inv)
  then show ?thesis
    unfolding nonneg_form_def dims by blast
qed

lemma assign_W_nonneg:
  assumes sp: "supported s"
    and ri: "right_inverse (np_linalg_inv E)" "right_inverse (torch_inverse E)"
    and a: "assign_W E M s = Returned u s1"
  shows "nonneg_weight (self_W s1)"
proof (cases "weighting_matrix s = ''optimal''")
  case False
  with a sp show ?thesis
    by (auto simp: assign_W_def supported_def nonneg_weight_def weight_array_def nonneg_form_eye)
next
  case True
  with a obtain w where o: "optimal_weighting_matrix E s M = Inr w" and s1: "self_W s1 = w"
    by (auto simp: assign_W_def split: sum.splits)
  show ?thesis
  proof (cases "opt s = ''scipy''")
    case True
    with o obtain n G Wm where "0 < n" "matmul (T_mat M) M = Inr G"
      "np_linalg_inv E (scalar_mul (1 / real n) G) = Inr Wm" "w = WNumpy Wm"
      by (auto simp: optimal_weighting_matrix_def split: option.splits sum.splits if_splits)
    with nonneg_form_gram_inverse[OF ri(1)] s1 show ?thesis
      by (auto simp: nonneg_weight_def weight_array_def)
  next
    case False
    with sp have "opt s = ''torch''" by (simp add: supported_def)
    with False o obtain n G Wm where "0 < n" "matmul (T_mat M) M = Inr G"
      "torch_inverse E (scalar_mul (1 / real n) G) = Inr Wm" "w = WTorch Float64 Wm"
      by (auto simp: optimal_weighting_matrix_def split: option.splits sum.splits if_splits)
    with nonneg_form_gram_inverse[OF ri(2)] s1 show ?thesis
      by (auto simp: nonneg_weight_def weight_array_def)
  qed
qed

lemma gmm_objective_nonneg:
  assumes sp: "supported s"
    and ri: "right_inverse (np_linalg_inv E)" "right_inverse (torch_inverse E)"
    and r: "gmm_objective E beta s = Returned v s1"
  shows "nonneg_weight (self_W s1)"
proof -
  from r obtain M u s0 where
    a: "assign_W E M s = Returned u s0"
    and q: "quadratic_form s0 (mean_axis0 M) = Returned v s1"
    unfolding gmm_objective_def
    by (auto split: option.splits sum.splits result.splits)
  from quadratic_form_state(1)[OF q] assign_W_nonneg[OF sp ri a] show ?thesis by simp
qed

lemma run_minimizer_nonneg:
  assumes "supported s"
    and "right_inverse (np_linalg_inv E)" and "right_inverse (torch_inverse E)"
    and "nonneg_weight (self_W s) \<or> (\<exists>b c. m = Query b c)"
    and "run_minimizer m E s = Returned res s1"
  shows "nonneg_weight (self_W s1)"
  using assms
proof (induction m arbitrary: s)
  case (Return r)
  then show ?case by auto
next
  case (Fail e)
  then show ?case by simp
next
  case (Query beta cont)
  from Query.prems(5) obtain v s0 where
    ob: "gmm_objective E beta s = Returned v s0" and
    run: "run_minimizer (cont v) E s0 = Returned res s1"
    by (auto split: result.splits)
  from gmm_objective_nonneg[OF Query.prems(1,2,3) ob] have nn: "nonneg_weight (self_W s0)" .
  from gmm_objective_Returned_frame[OF ob] have "opt s0 = opt s"
    by (metis estimator.select_convs(3) estimator.surjective estimator.update_convs(9))
  with Query.prems(1) have sp: "supported s0" by (simp add: supported_def)
  have "cont v \<in> range cont" by simp
  from Query.IH[OF this sp Query.prems(2,3) _ run] nn show ?case by blast
qed

lemma sandwich_diag_nonneg:
  assumes ri: "right_inverse finv" and nn: "nonneg_form Wm"
    and GW: "matmul (T_mat G) Wm = Inr GW" and A: "matmul GW G = Inr A"
    and V: "finv A = Inr V" and i: "i < vlen (diag V)"
  shows "0 \<le> velem (diag V) i"
proof -
  let ?L = "nrows G"
  let ?k = "ncols G"
  from GW have W1: "nrows Wm = ?L" and GWd: "nrows GW = ?k" "ncols GW = ncols Wm"
    and GWe: "\<And>a l. entry GW a l = (\<Sum>m<?L. entry G m a * entry Wm m l)"
    by (auto simp: matmul_def T_mat_def split: if_splits)
  from A GWd have W2: "ncols Wm = ?L" and Ad: "nrows A = ?k" "ncols A = ?k"
    and Ae: "\<And>a b. entry A a b = (\<Sum>l<?L. entry GW a l * entry G l b)"
    by (auto simp: matmul_def split: if_splits)
  from ri V have "nrows V = nrows A \<and> ncols V = nrows A
        \<and> (\<forall>a<nrows A. \<forall>j<nrows A.
              (\<Sum>b<nrows A. entry A a b * entry V b j) = (if a = j then 1 else 0))"
    unfolding right_inverse_def by blast
  with Ad have Vd: "nrows V = ?k" "ncols V = ?k"
    and inv: "\<And>a j. a < ?k \<Longrightarrow> j < ?k \<Longrightarrow>
                (\<Sum>b<?k. entry A a b * entry V b j) = (if a = j then 1 else 0)"
    by simp_all
  from i Vd have ik: "i < ?k" by (simp add: diag_def)
  have "entry V i i = (\<Sum>a<?k. \<Sum>b<?k. entry V a i * entry A a b * entry V b i)"
    by (rule inverse_diagonal[OF inv ik])
  also have "\<dots> = (\<Sum>a<?k. \<Sum>b<?k. entry V a i
                 * (\<Sum>l<?L. (\<Sum>m<?L. entry G m a * entry Wm m l) * entry G l b) * entry V b i)"
    by (simp only: Ae GWe)
  also have "\<dots> = (\<Sum>m<?L. \<Sum>l<?L. (\<Sum>a<?k. entry G m a * entry V a i) * entry Wm m l
                 * (\<Sum>b<?k. entry G l b * entry V b i))"
    by (rule congruence_form)
  finally have eq: "entry V i i
        = (\<Sum>m<?L. \<Sum>l<?L. (\<Sum>a<?k. entry G m a * entry V a i) * entry Wm m l
                 * (\<Sum>b<?k. entry G l b * entry V b i))" .
  have "0 \<le> (\<Sum>m<?L. \<Sum>l<?L. g m * entry Wm m l * g l)" for g
    using nn by (simp add: nonneg_form_def W1 W2)
  with eq show ?thesis by (simp add: diag_def)
qed

lemma sandwich_inverse_nonneg:
  assumes ri: "right_inverse (np_linalg_inv E)" and nn: "nonneg_weight w"
    and V: "sandwich_inverse E G w = Inr V" and i: "i < vlen (diag V)"
  shows "0 \<le> velem (diag V) i"
proof -
  from nn obtain Wm where Wm: "weight_array w = Inr Wm" and f: "nonneg_form Wm"
    by (auto simp: nonneg_weight_def)
  from V Wm obtain GW A where "matmul (T_mat G) Wm = Inr GW" "matmul GW G = Inr A"
    "np_linalg_inv E A = Inr V"
    by (auto simp: sandwich_inverse_def split: sum.splits)
  from sandwich_diag_nonneg[OF ri f this i] show ?thesis .
qed

lemma sqrt_scaled_nonneg:
  assumes "\<And>i. i < vlen d \<Longrightarrow> 0 \<le> velem d i"
  shows "\<forall>i<flen (sqrt_scaled n d). \<exists>r. felem (sqrt_scaled n d) i = Num r \<and> 0 \<le> r"
  using assms by (auto simp: sqrt_scaled_def np_sqrt_def not_less[symmetric] mult_less_0_iff)

text \<open>
  In exact arithmetic: if the inversion routines were exact, and the minimiser evaluates
  the objective at least once, then whenever \<^verbatim>\<open>fit\<close> returns with standard errors,
  every entry of them is a real number that is not negative, and none is a NaN: the
  weighting matrix left by the last evaluation has a non-negative quadratic form, so
  has \<open>(G\<^sup>T W) G\<close>, and a diagonal entry of its inverse is a value of that form.
\<close>

lemma exact_standard_errors_nonneg:
  assumes ri: "right_inverse (np_linalg_inv E)" "right_inverse (torch_inverse E)"
    and q: "chosen_minimizer E rand x verbose fit_method s = Query b c"
    and f: "fit E rand z y x verbose fit_method s = Returned u s'"
    and se: "self_std_errors s' = SEVal se"
  shows "\<forall>i<flen se. \<exists>r. felem se i = Num r \<and> 0 \<le> r"
proof -
  from f obtain res s1 where
    m: "minimize E rand z y x verbose fit_method s = Returned res s1"
    and s': "s' = standard_errors E (s1\<lparr>self_theta := Some res\<rparr>)"
    unfolding fit_def by (auto split: result.splits)
  from minimize_chosen[OF m] obtain s0 where
    backend: "opt s = ''scipy'' \<or> opt s = ''torch''"
    and run: "run_minimizer (chosen_minimizer E rand x verbose fit_method s) E (stage z y x s)
                = Returned res s0"
    and W: "weight_array (self_W s1) = weight_array (self_W s0)"
    by blast
  from backend have sp: "supported (stage z y x s)" by (simp add: supported_def stage_def)
  from q have "nonneg_weight (self_W (stage z y x s))
      \<or> (\<exists>b c. chosen_minimizer E rand x verbose fit_method s = Query b c)" by simp
  from run_minimizer_nonneg[OF sp ri this run] W
  have nn: "nonneg_weight (self_W (s1\<lparr>self_theta := Some res\<rparr>))"
    by (simp add: nonneg_weight_def)
  from se obtain G V n where
    V: "sandwich_inverse E G (self_W (s1\<lparr>self_theta := Some res\<rparr>)) = Inr V"
    and "se = sqrt_scaled n (diag V)"
    unfolding s' standard_errors_cases
    by (auto split: result.splits sum.splits option.splits)
  with sqrt_scaled_nonneg[of "diag V" n] sandwich_inverse_nonneg[OF ri(1) nn V]
  show ?thesis by simp
qed

lemma exact_standard_errors_nonneg_small:
  "\<exists>s' se.
      fit small_externals (\<lambda>i. 0) (mat1 1) (vec1 1) (mat1 1) False None
        (GMMEstimator iv_moment_numpy ''identity'' ''scipy'') = Returned () s'
    \<and> self_std_errors s' = SEVal se \<and> flen se = 1 \<and> felem se 0 = Num 1
    \<and> (\<exists>r. felem se 0 = Num r \<and> 0 \<le> r)"
proof -
  from regular_fit obtain s' where
    f: "fit small_externals (\<lambda>i. 0) (mat1 1) (vec1 1) (mat1 1) False None
           (GMMEstimator iv_moment_numpy ''identity'' ''scipy'') = Returned () s'"
    and se: "self_std_errors s' = SEVal (FVec 1 (\<lambda>i. Num 1))"
    by blast
  have ri: "right_inverse (np_linalg_inv small_externals)"
    "right_inverse (torch_inverse small_externals)"
    by (simp_all add: small_externals_def right_inverse_inv_1x1)
  have q: "chosen_minimizer small_externals (\<lambda>i. 0) (mat1 1) False None
             (GMMEstimator iv_moment_numpy ''identity'' ''scipy'')
           = Query (Vec (ncols (mat1 1)) (\<lambda>i. 0)) (\<lambda>v. Return (Vec (ncols (mat1 1)) (\<lambda>i. 0)))"
    by (simp add: chosen_minimizer_def GMMEstimator_def small_externals_def one_step_def)
  from exact_standard_errors_nonneg[OF ri q f se] have "\<exists>r. felem (FVec 1 (\<lambda>i. Num 1)) 0 = Num r \<and> 0 \<le> r"
    by simp
  with f se show ?thesis by auto
qed

text \<open>
  The routines of the libraries are not exact, and the code takes the square root of
  whatever diagonal they return.
\<close>

lemma minimize_staged:
  assumes "minimize E rand z y x verbose fit_method s = Returned res s1"
  shows "self_n s1 = Some (nrows x)"
proof -
  from minimize_chosen[OF assms] obtain s0 where
    run: "run_minimizer (chosen_minimizer E rand x verbose fit_method s) E (stage z y x s)
            = Returned res s0"
    and s1: "opt s = ''scipy'' \<longrightarrow> s1 = s0"
      "opt s = ''torch'' \<longrightarrow> (\<exists>d Wm. self_W s0 = WTorch d Wm \<and> s1 = s0\<lparr>self_W := WNumpy Wm\<rparr>)"
    and backend: "opt s = ''scipy'' \<or> opt s = ''torch''"
    by blast
  from run_minimizer_Returned_frame[OF run]
  have s0: "s0 = (stage z y x s)\<lparr>self_W := self_W s0\<rparr>" .
  have "self_n s0 = Some (nrows x)"
    by (subst s0) (simp add: stage_def)
  with s1 backend show ?thesis by auto
qed

lemma np_sqrt_cases:
  "(a < 0 \<and> np_sqrt a = NaN) \<or> (0 \<le> a \<and> np_sqrt a = Num (sqrt a) \<and> 0 \<le> sqrt a)"
  by (simp add: np_sqrt_def)

text \<open>
  C8. Whenever \<^verbatim>\<open>fit\<close> returns with standard errors, \<open>self.v\<theta>\<close> is the matrix \<open>V\<close> that
  the inversion returned, the standard errors are \<open>sqrt(n * diag V)\<close>, and every entry of
  them is either NaN, when \<open>n\<close> times the diagonal entry of \<open>V\<close> is negative, or the square
  root of that product, a number that is not negative. Nothing in \<^verbatim>\<open>fit\<close> looks at the
  sign of the diagonal.
\<close>

theorem standard_errors_nonneg_or_nan:
  assumes "fit E rand z y x verbose fit_method s = Returned u s'"
    and "self_std_errors s' = SEVal se"
  shows "\<exists>V. self_vtheta s' = Some V \<and> se = sqrt_scaled (nrows x) (diag V)
           \<and> (\<forall>i<flen se.
                  (real (nrows x) * entry V i i < 0 \<and> felem se i = NaN)
                \<or> (0 \<le> real (nrows x) * entry V i i
                    \<and> felem se i = Num (sqrt (real (nrows x) * entry V i i))
                    \<and> 0 \<le> sqrt (real (nrows x) * entry V i i)))"
proof -
  from assms(1) obtain res sm where
    min: "minimize E rand z y x verbose fit_method s = Returned res sm"
    and s': "s' = standard_errors E (sm\<lparr>self_theta := Some res\<rparr>)"
    unfolding fit_def by (auto split: result.splits)
  let ?t = "sm\<lparr>self_theta := Some res\<rparr>"
  from s' assms(2) obtain uu where cov: "covariance E ?t = Returned uu s'"
    unfolding standard_errors_def by (auto split: result.splits)
  from covariance_Returned[OF cov] obtain G V n where
    n: "self_n ?t = Some n"
    and s'eq: "s' = ?t\<lparr>self_jac_est := Some G, self_Gamma := Some G, self_vtheta := Some V,
                  self_std_errors := SEVal (sqrt_scaled n (diag V))\<rparr>"
    by blast
  from n minimize_staged[OF min] have n': "n = nrows x" by simp
  have V: "self_vtheta s' = Some V" and se': "self_std_errors s' = SEVal (sqrt_scaled n (diag V))"
    by (subst s'eq, simp)+
  from se' assms(2) n' have se: "se = sqrt_scaled (nrows x) (diag V)" by simp
  have "(real (nrows x) * entry V i i < 0 \<and> felem se i = NaN)
                \<or> (0 \<le> real (nrows x) * entry V i i
                    \<and> felem se i = Num (sqrt (real (nrows x) * entry V i i))
                    \<and> 0 \<le> sqrt (real (nrows x) * entry V i i))" for i
    using np_sqrt_cases[of "real (nrows x) * entry V i i"]
    by (simp add: se sqrt_scaled_def diag_def)
  with V se show ?thesis by blast
qed

theorem standard_errors_nonneg_or_nan_witness:
  "\<exists>s' V. fit small_externals (\<lambda>i. 0) (mat1 1) (vec1 1) (mat1 1) False None
           (GMMEstimator iv_moment_numpy ''identity'' ''scipy'') = Returned () s'
        \<and> self_std_errors s' = SEVal (FVec 1 (\<lambda>i. Num 1))
        \<and> self_vtheta s' = Some V
        \<and> 0 \<le> real (nrows (mat1 1)) * entry V 0 0
        \<and> Num 1 = Num (sqrt (real (nrows (mat1 1)) * entry V 0 0))"
proof -
  from regular_fit obtain s' where
    f: "fit small_externals (\<lambda>i. 0) (mat1 1) (vec1 1) (mat1 1) False None
           (GMMEstimator iv_moment_numpy ''identity'' ''scipy'') = Returned () s'"
    and se: "self_std_errors s' = SEVal (FVec 1 (\<lambda>i. Num 1))"
    by blast
  from standard_errors_nonneg_or_nan[OF f se] obtain V where
    V: "self_vtheta s' = Some V"
    and e: "\<forall>i<flen (FVec 1 (\<lambda>i. Num 1)).
                  (real (nrows (mat1 1)) * entry V i i < 0 \<and> felem (FVec 1 (\<lambda>i. Num 1)) i = NaN)
                \<or> (0 \<le> real (nrows (mat1 1)) * entry V i i
                    \<and> felem (FVec 1 (\<lambda>i. Num 1)) i = Num (sqrt (real (nrows (mat1 1)) * entry V i i))
                    \<and> 0 \<le> sqrt (real (nrows (mat1 1)) * entry V i i))"
    by blast
  from e have "0 \<le> real (nrows (mat1 1)) * entry V 0 0
      \<and> Num 1 = Num (sqrt (real (nrows (mat1 1)) * entry V 0 0))"
    by auto
  with f se V show ?thesis by blast
qed

lemma rank_one_sandwich:
  "\<exists>G GW A. matmul (neg_mat (T_mat (eye 2))) rank_one_x = Inr G
     \<and> matmul (T_mat G) (eye 2) = Inr GW \<and> matmul GW G = Inr A
     \<and> nrows A = 2 \<and> ncols A = 2
     \<and> entry A 0 0 = 400 \<and> entry A 0 1 = 220 \<and> entry A 1 0 = 220 \<and> entry A 1 1 = 121"
  by (simp add: matmul_def neg_mat_def T_mat_def eye_def rank_one_x_def
      lessThan_Suc numeral_2_eq_2)

text \<open>
  Standard errors that are present and NaN: the fit on the rank-one regressors, with the
  inverse that float64 elimination returns for the singular \<open>(G\<^sup>T W) G\<close>. \<^verbatim>\<open>fit\<close>
  returns, \<open>self.v\<theta>\<close> has a negative diagonal, and both standard errors are NaN.
\<close>

theorem standard_errors_nonneg_or_nan_counterexample:
  "returns (fit float64_externals (\<lambda>i. 0) (eye 2) ones2 rank_one_x False None fresh_scipy)
   \<and> self_vtheta rank_one_fit = Some rank_one_vtheta
   \<and> self_std_errors rank_one_fit = SEVal (sqrt_scaled 2 (diag rank_one_vtheta))
   \<and> flen (sqrt_scaled 2 (diag rank_one_vtheta)) = 2
   \<and> felem (sqrt_scaled 2 (diag rank_one_vtheta)) 0 = NaN
   \<and> felem (sqrt_scaled 2 (diag rank_one_vtheta)) 1 = NaN"
  by (simp add: returns_def rank_one_fit_def state_of_def fresh_scipy_def float64_externals_def
      float64_inv_def rank_one_x_def ones2_def rank_one_vtheta_def small_defs
      lessThan_Suc numeral_2_eq_2)


section \<open>Data is staged under a supported backend only\<close>

text \<open>
  The condition \<open>staged_by_fit\<close> holds of a new instance and is kept by every method,
  whether it returns or raises.
\<close>

lemma staged_by_fit_new: "staged_by_fit (GMMEstimator mc wm backend)"
  by (simp add: staged_by_fit_def GMMEstimator_def)

lemma staged_by_fit_update_W: "staged_by_fit (s\<lparr>self_W := w\<rparr>) = staged_by_fit s"
  by (simp add: staged_by_fit_def)

lemma staged_by_fit_objective:
  assumes "staged_by_fit s"
  shows "staged_by_fit (state_of (gmm_objective E beta s))"
proof (cases "gmm_objective E beta s")
  case (Returned v s1)
  from gmm_objective_Returned_frame[OF Returned] assms have "staged_by_fit s1"
    by (metis staged_by_fit_update_W)
  with Returned show ?thesis by (simp add: state_of_def)
next
  case (Raised e s1)
  from gmm_objective_Raised_frame[OF Raised] assms have "staged_by_fit s1"
    by (metis staged_by_fit_update_W)
  with Raised show ?thesis by (simp add: state_of_def)
qed

lemma staged_by_fit_jacobian:
  assumes "staged_by_fit s"
  shows "staged_by_fit (state_of (jacobian_moment_cond E s))"
proof (cases "jacobian_moment_cond E s")
  case (Returned G s1)
  from jacobian_moment_cond_frame(1)[OF Returned] assms show ?thesis
    by (simp add: Returned state_of_def staged_by_fit_def)
next
  case (Raised e s1)
  from jacobian_moment_cond_frame(2)[OF Raised] assms show ?thesis
    by (simp add: Raised state_of_def)
qed

lemma run_minimizer_opt: "opt (state_of (run_minimizer m E s)) = opt s"
proof (cases "run_minimizer m E s")
  case (Returned res s1)
  from run_minimizer_Returned_frame[OF Returned] have "opt s1 = opt (s\<lparr>self_W := self_W s1\<rparr>)"
    by simp
  with Returned show ?thesis by (simp add: state_of_def)
next
  case (Raised e s1)
  from run_minimizer_Raised_frame[OF Raised] have "opt s1 = opt (s\<lparr>self_W := self_W s1\<rparr>)"
    by simp
  with Raised show ?thesis by (simp add: state_of_def)
qed

lemma standard_errors_opt: "opt (standard_errors E s) = opt s"
  by (simp add: standard_errors_cases split: result.splits sum.splits option.splits)

lemma minimize_opt: "opt (state_of (minimize E rand z y x verbose fit_method s)) = opt s"
proof -
  let ?r = "run_minimizer (chosen_minimizer E rand x verbose fit_method s) E (stage z y x s)"
  have r: "opt (state_of ?r) = opt s"
    by (simp add: run_minimizer_opt stage_def)
  show ?thesis
  proof (cases ?r)
    case (Raised e s1)
    with r show ?thesis by (simp add: minimize_run state_of_def)
  next
    case (Returned res s1)
    with r show ?thesis
      by (simp add: minimize_run state_of_def detach_numpy_def split: weight.splits)
  qed
qed

lemma fit_opt: "opt (state_of (fit E rand z y x verbose fit_method s)) = opt s"
  using minimize_opt[of E rand z y x verbose fit_method s]
  by (cases "minimize E rand z y x verbose fit_method s")
    (simp_all add: fit_def state_of_def standard_errors_opt)

lemma staged_by_fit_fit:
  assumes "staged_by_fit s"
  shows "staged_by_fit (state_of (fit E rand z y x verbose fit_method s))"
proof (cases "supported s")
  case True
  with fit_opt[of E rand z y x verbose fit_method s] show ?thesis
    by (simp add: staged_by_fit_def supported_def)
next
  case False
  then have "fit E rand z y x verbose fit_method s = Raised UnboundLocalError s"
    by (simp add: fit_def minimize_def supported_def)
  with assms show ?thesis by (simp add: state_of_def)
qed

section \<open>Backends\<close>

text \<open>
  C9. An estimator built with a backend string other than "scipy" and "torch" cannot be
  fitted: \<^verbatim>\<open>fit\<close> raises (UnboundLocalError, at the read of \<^verbatim>\<open>result\<close>) whatever the
  data, and the instance is left as it was: nothing is staged, no estimate is stored, no
  other backend is tried.
\<close>

theorem fit_unknown_backend_raises:
  "opt s \<noteq> ''scipy'' \<Longrightarrow> opt s \<noteq> ''torch'' \<Longrightarrow>
   fit E rand z y x verbose fit_method s = Raised UnboundLocalError s"
  by (simp add: fit_def minimize_def)

theorem fit_unknown_backend_raises_witness:
  "fit small_externals (\<lambda>i. 0) (mat1 1) (vec1 1) (mat1 1) False None
     (GMMEstimator iv_moment_numpy ''optimal'' ''jax'')
   = Raised UnboundLocalError (GMMEstimator iv_moment_numpy ''optimal'' ''jax'')"
  by (rule fit_unknown_backend_raises) (simp_all add: GMMEstimator_def)

end
